theory Spec2Isabelle
  imports Main "HOL-Library.Word"
begin

unbundle bit_operations_syntax

section \<open>Geometry\<close>

text \<open>
  \<open>gfx::Size\<close>, \<open>gfx::Point\<close> and \<open>gfx::Rect\<close> are used by
  \<open>chrome/renderer/render_widget.cc\<close> but declared elsewhere. The widget only needs
  construction from a size, emptiness, intersection, union and the width and height setters.
\<close>

record Size =
  size_width :: int
  size_height :: int

type_synonym Point = "int \<times> int"

record Rect =
  rect_x :: int
  rect_y :: int
  rect_width :: int
  rect_height :: int

text \<open>Modelled from the spec: \<open>gfx::Size::IsEmpty\<close> (the header is not part of the
  sources); a size is empty when it encloses no area.\<close>
definition Size_IsEmpty :: "Size \<Rightarrow> bool" where
  "Size_IsEmpty s = (size_width s \<le> 0 \<or> size_height s \<le> 0)"

text \<open>Modelled from the spec: \<open>gfx::Rect\<close> is an "integer-origin axis-aligned
  rectangle"; the default rectangle is the empty one at the origin.\<close>
definition Rect_default :: Rect where
  "Rect_default = \<lparr>rect_x = 0, rect_y = 0, rect_width = 0, rect_height = 0\<rparr>"

text \<open>Modelled from the spec: \<open>gfx::Rect(width, height)\<close>, a rectangle at the origin.\<close>
definition Rect_wh :: "int \<Rightarrow> int \<Rightarrow> Rect" where
  "Rect_wh w h = \<lparr>rect_x = 0, rect_y = 0, rect_width = w, rect_height = h\<rparr>"

text \<open>Modelled from the spec: \<open>gfx::Rect(const gfx::Size&)\<close>, the view bounds of a
  widget of that size.\<close>
definition Rect_of_Size :: "Size \<Rightarrow> Rect" where
  "Rect_of_Size s = Rect_wh (size_width s) (size_height s)"

text \<open>Modelled from the spec: \<open>gfx::Rect::IsEmpty\<close>.\<close>
definition Rect_IsEmpty :: "Rect \<Rightarrow> bool" where
  "Rect_IsEmpty r = (rect_width r \<le> 0 \<or> rect_height r \<le> 0)"

definition rect_right :: "Rect \<Rightarrow> int" where
  "rect_right r = rect_x r + rect_width r"

definition rect_bottom :: "Rect \<Rightarrow> int" where
  "rect_bottom r = rect_y r + rect_height r"

text \<open>Modelled from the spec: \<open>gfx::Rect::Intersect\<close>, the common part of two
  rectangles, the default rectangle when they do not overlap.\<close>
definition Intersect :: "Rect \<Rightarrow> Rect \<Rightarrow> Rect" where
  "Intersect a b =
     (let rx = max (rect_x a) (rect_x b);
          ry = max (rect_y a) (rect_y b);
          rr = min (rect_right a) (rect_right b);
          rb = min (rect_bottom a) (rect_bottom b)
      in if rx \<ge> rr \<or> ry \<ge> rb then Rect_default
         else \<lparr>rect_x = rx, rect_y = ry, rect_width = rr - rx, rect_height = rb - ry\<rparr>)"

text \<open>Modelled from the spec: \<open>gfx::Rect::Union\<close>, the bounding box of two rectangles,
  an empty operand contributing nothing.\<close>
definition Union_rect :: "Rect \<Rightarrow> Rect \<Rightarrow> Rect" where
  "Union_rect a b =
     (if Rect_IsEmpty a then b
      else if Rect_IsEmpty b then a
      else (let rx = min (rect_x a) (rect_x b);
                ry = min (rect_y a) (rect_y b);
                rr = max (rect_right a) (rect_right b);
                rb = max (rect_bottom a) (rect_bottom b)
            in \<lparr>rect_x = rx, rect_y = ry, rect_width = rr - rx, rect_height = rb - ry\<rparr>))"

section \<open>The paint aggregator\<close>

text \<open>
  \<open>PaintAggregator\<close> and its \<open>PendingUpdate\<close> are a separate class whose
  implementation is not part of the sources. \<open>render_widget.cc\<close> reads the fields
  \<open>scroll_delta\<close>, \<open>scroll_rect\<close> and \<open>paint_rects\<close> of the pending update; the
  operations follow section 4.1 of the specification.
\<close>

record PendingUpdate =
  scroll_delta :: Point
  scroll_rect :: Rect
  paint_rects :: "Rect list"

text \<open>Modelled from the spec: the empty state of the aggregator (nothing queued).\<close>
definition PendingUpdate_empty :: PendingUpdate where
  "PendingUpdate_empty = \<lparr>scroll_delta = (0, 0), scroll_rect = Rect_default, paint_rects = []\<rparr>"

text \<open>Modelled from the spec: \<open>PaintAggregator::HasPendingUpdate\<close>, "true iff any scroll
  or paint entry is queued".\<close>
definition HasPendingUpdate :: "PendingUpdate \<Rightarrow> bool" where
  "HasPendingUpdate u = (\<not> Rect_IsEmpty (scroll_rect u) \<or> paint_rects u \<noteq> [])"

text \<open>Modelled from the spec: \<open>PaintAggregator::ClearPendingUpdate\<close>, "resets to the
  empty state".\<close>
definition ClearPendingUpdate :: "PendingUpdate \<Rightarrow> PendingUpdate" where
  "ClearPendingUpdate u = PendingUpdate_empty"

text \<open>Modelled from the spec: \<open>PaintAggregator::GetPendingUpdate\<close>, "returns a snapshot
  without mutating state".\<close>
definition GetPendingUpdate :: "PendingUpdate \<Rightarrow> PendingUpdate" where
  "GetPendingUpdate u = u"

text \<open>Modelled from the spec: \<open>PaintAggregator::InvalidateRect\<close>, "adds rect to the
  pending paint set"; an empty rectangle adds nothing.\<close>
definition InvalidateRect :: "Rect \<Rightarrow> PendingUpdate \<Rightarrow> PendingUpdate" where
  "InvalidateRect r u = (if Rect_IsEmpty r then u else u\<lparr>paint_rects := paint_rects u @ [r]\<rparr>)"

text \<open>Modelled from the spec: \<open>PaintAggregator::ScrollRect\<close>, "last scroll wins,
  retaining the newest clip rect"; the paint rectangles stay as they are.\<close>
definition ScrollRect :: "int \<Rightarrow> int \<Rightarrow> Rect \<Rightarrow> PendingUpdate \<Rightarrow> PendingUpdate" where
  "ScrollRect dx dy clip_rect u = u\<lparr>scroll_delta := (dx, dy), scroll_rect := clip_rect\<rparr>"

text \<open>Modelled from the spec: \<open>PendingUpdate::GetScrollDamage\<close>, "the scroll clip rect,
  or empty if none".\<close>
definition GetScrollDamage :: "PendingUpdate \<Rightarrow> Rect" where
  "GetScrollDamage u = (if Rect_IsEmpty (scroll_rect u) then Rect_default else scroll_rect u)"

text \<open>Modelled from the spec: \<open>PendingUpdate::GetPaintBounds\<close>, "bounding box of all
  paint rects unioned with scroll damage".\<close>
definition GetPaintBounds :: "PendingUpdate \<Rightarrow> Rect" where
  "GetPaintBounds u = Union_rect (foldl Union_rect Rect_default (paint_rects u)) (GetScrollDamage u)"

section \<open>Messages to the host\<close>

type_synonym routing_id = int
type_synonym dib_id = nat
type_synonym cursor = nat
type_synonym plugin_move = nat
type_synonym text_input_type = nat

text \<open>The enumerator \<open>MSG_ROUTING_NONE\<close> of the IPC layer (its header is not part of
  the sources). Only the concrete examples use its numeric value.\<close>
definition MSG_ROUTING_NONE :: routing_id where
  "MSG_ROUTING_NONE = - 2"

text \<open>\<open>WebKit::WebInputEvent::Type\<close>: the source names \<open>RawKeyDown\<close>, \<open>Char\<close>,
  \<open>MouseMove\<close> and \<open>MouseWheel\<close>; the remaining enumerators are those of the WebKit
  header.\<close>
datatype WebInputEvent_Type =
    Undefined | MouseDown | MouseUp | MouseMove | MouseEnter | MouseLeave | MouseWheel
  | RawKeyDown | KeyDown | KeyUp | Char

definition isKeyboardEventType :: "WebInputEvent_Type \<Rightarrow> bool" where
  "isKeyboardEventType t = (t = RawKeyDown \<or> t = KeyDown \<or> t = KeyUp \<or> t = Char)"

text \<open>Modelled from the spec: \<open>ViewHostMsg_UpdateRect_Flags\<close>, a "bitset over
  {IsResizeAck, IsRestoreAck, IsRepaintAck}" whose three bits "are independent and may
  combine"; \<open>next_paint_flags_\<close> is a C++ \<open>int\<close>.\<close>
definition IS_RESIZE_ACK :: "32 word" where
  "IS_RESIZE_ACK = 1"

definition IS_RESTORE_ACK :: "32 word" where
  "IS_RESTORE_ACK = 2"

definition IS_REPAINT_ACK :: "32 word" where
  "IS_REPAINT_ACK = 4"

definition is_resize_ack :: "32 word \<Rightarrow> bool" where
  "is_resize_ack flags = (flags AND IS_RESIZE_ACK \<noteq> 0)"

definition is_restore_ack :: "32 word \<Rightarrow> bool" where
  "is_restore_ack flags = (flags AND IS_RESTORE_ACK \<noteq> 0)"

record ViewHostMsg_UpdateRect_Params =
  bitmap :: dib_id
  bitmap_rect :: Rect
  dx :: int
  dy :: int
  params_scroll_rect :: Rect
  copy_rects :: "Rect list"
  view_size :: Size
  plugin_window_moves :: "plugin_move list"
  flags :: "32 word"

datatype payload =
    ViewHostMsg_UpdateRect ViewHostMsg_UpdateRect_Params
  | ViewHostMsg_HandleInputEvent_ACK WebInputEvent_Type bool
  | ViewHostMsg_GpuRenderingActivated bool
  | ViewHostMsg_SetCursor cursor
  | ViewHostMsg_ImeUpdateTextInputState text_input_type Rect
  | ViewHostMsg_Blur
  | ViewHostMsg_Close

record message =
  msg_routing_id :: routing_id
  msg_payload :: payload

definition is_UpdateRect :: "message \<Rightarrow> bool" where
  "is_UpdateRect m = (case msg_payload m of ViewHostMsg_UpdateRect _ \<Rightarrow> True | _ \<Rightarrow> False)"

text \<open>The frame-updates among a list of messages, in order.\<close>
definition frame_updates :: "message list \<Rightarrow> message list" where
  "frame_updates ms = filter is_UpdateRect ms"

definition is_InputEvent_ACK :: "message \<Rightarrow> bool" where
  "is_InputEvent_ACK m =
     (case msg_payload m of ViewHostMsg_HandleInputEvent_ACK _ _ \<Rightarrow> True | _ \<Rightarrow> False)"

text \<open>The input-event acknowledgements among a list of messages, in order.\<close>
definition input_acks :: "message list \<Rightarrow> message list" where
  "input_acks ms = filter is_InputEvent_ACK ms"

section \<open>The widget\<close>

datatype task = Task_CallDoDeferredUpdate | Task_DoDeferredClose | Task_Close

datatype render_thread_call = RemoveRoute routing_id | WidgetHidden | WidgetRestored

text \<open>
  The members of \<open>RenderWidget\<close> that the modelled methods read or write, followed by
  the observable effects on the collaborators: \<open>sent\<close> is what reached
  \<open>render_thread_->Send\<close>, \<open>render_thread_calls\<close> the other calls on the render thread,
  \<open>posted_tasks\<close> and \<open>posted_non_nestable_tasks\<close> the two queues of the message
  loop, \<open>released_dibs\<close> the buffers given back with \<open>ReleaseTransportDIB\<close>, and
  \<open>ref_count\<close> the reference count (\<open>Release\<close> decrements it). \<open>webwidget_\<close> is
  \<open>True\<close> while the pointer is not \<open>NULL\<close>.
\<close>
record RenderWidget =
  routing_id_field :: routing_id
  webwidget :: bool
  current_paint_buf :: "dib_id option"
  next_paint_flags :: "32 word"
  update_reply_pending :: bool
  is_hidden :: bool
  needs_repainting_on_restore :: bool
  handling_input_event :: bool
  closing :: bool
  input_method_is_active :: bool
  text_input_type_field :: text_input_type
  caret_bounds :: Rect
  suppress_next_char_events :: bool
  is_gpu_rendering_active :: bool
  widget_size :: Size
  resizer_rect :: Rect
  paint_aggregator :: PendingUpdate
  pending_input_event_ack :: "message option"
  plugin_window_moves_field :: "plugin_move list"
  current_cursor :: cursor
  sent :: "message list"
  render_thread_calls :: "render_thread_call list"
  posted_tasks :: "task list"
  posted_non_nestable_tasks :: "task list"
  released_dibs :: "dib_id list"
  ref_count :: int

text \<open>
  The widget as \<open>RenderWidget::Create\<close> returns it: the constructor's initial values,
  then \<open>Init\<close>, where the engine's widget is created and the host's answer to
  \<open>ViewHostMsg_CreateWidget\<close> gives the routing id; one reference is held on behalf of
  the render thread.
\<close>
definition created_widget :: "routing_id \<Rightarrow> RenderWidget" where
  "created_widget rid =
     \<lparr>routing_id_field = rid, webwidget = True, current_paint_buf = None,
      next_paint_flags = 0, update_reply_pending = False, is_hidden = False,
      needs_repainting_on_restore = False, handling_input_event = False, closing = False,
      input_method_is_active = False, text_input_type_field = 0,
      caret_bounds = Rect_default, suppress_next_char_events = False,
      is_gpu_rendering_active = False,
      widget_size = \<lparr>size_width = 0, size_height = 0\<rparr>, resizer_rect = Rect_default,
      paint_aggregator = PendingUpdate_empty, pending_input_event_ack = None,
      plugin_window_moves_field = [], current_cursor = 0, sent = [],
      render_thread_calls = [], posted_tasks = [], posted_non_nestable_tasks = [],
      released_dibs = [], ref_count = 1\<rparr>"

subsection \<open>Sending\<close>

text \<open>
  \<open>RenderWidget::Send\<close>: after the browser told the widget to close, the message is
  deleted and \<open>false\<close> returned; otherwise a message without routing id gets the
  widget's and goes to the render thread. The render thread's own result is taken to be
  \<open>true\<close>; no method modelled here reads it.
\<close>
definition assign_routing_id :: "routing_id \<Rightarrow> message \<Rightarrow> message" where
  "assign_routing_id rid m =
     (if msg_routing_id m = MSG_ROUTING_NONE then m\<lparr>msg_routing_id := rid\<rparr> else m)"

definition Send :: "message \<Rightarrow> RenderWidget \<Rightarrow> bool \<times> RenderWidget" where
  "Send m w =
     (if closing w then (False, w)
      else (True, w\<lparr>sent := sent w @ [assign_routing_id (routing_id_field w) m]\<rparr>))"

text \<open>A call of \<open>Send\<close> whose result is discarded.\<close>
definition Send_discard :: "message \<Rightarrow> RenderWidget \<Rightarrow> RenderWidget" where
  "Send_discard m w = snd (Send m w)"

definition SetHidden :: "bool \<Rightarrow> RenderWidget \<Rightarrow> RenderWidget" where
  "SetHidden hidden w =
     (if is_hidden w = hidden then w
      else w\<lparr>is_hidden := hidden,
             render_thread_calls := render_thread_calls w @
               [if hidden then WidgetHidden else WidgetRestored]\<rparr>)"

definition set_next_paint_is_resize_ack :: "RenderWidget \<Rightarrow> RenderWidget" where
  "set_next_paint_is_resize_ack w = w\<lparr>next_paint_flags := next_paint_flags w OR IS_RESIZE_ACK\<rparr>"

definition set_next_paint_is_restore_ack :: "RenderWidget \<Rightarrow> RenderWidget" where
  "set_next_paint_is_restore_ack w = w\<lparr>next_paint_flags := next_paint_flags w OR IS_RESTORE_ACK\<rparr>"

definition set_next_paint_is_repaint_ack :: "RenderWidget \<Rightarrow> RenderWidget" where
  "set_next_paint_is_repaint_ack w = w\<lparr>next_paint_flags := next_paint_flags w OR IS_REPAINT_ACK\<rparr>"

definition next_paint_is_resize_ack :: "RenderWidget \<Rightarrow> bool" where
  "next_paint_is_resize_ack w = is_resize_ack (next_paint_flags w)"

subsection \<open>The delegate methods called by the engine\<close>

definition post_CallDoDeferredUpdate :: "RenderWidget \<Rightarrow> RenderWidget" where
  "post_CallDoDeferredUpdate w = w\<lparr>posted_tasks := posted_tasks w @ [Task_CallDoDeferredUpdate]\<rparr>"

definition didInvalidateRect :: "Rect \<Rightarrow> RenderWidget \<Rightarrow> RenderWidget" where
  "didInvalidateRect rect w =
     (let update_pending = HasPendingUpdate (paint_aggregator w);
          view_rect = Rect_of_Size (widget_size w);
          damaged_rect = Intersect view_rect rect
      in if Rect_IsEmpty damaged_rect then w
         else (let w1 = w\<lparr>paint_aggregator := InvalidateRect damaged_rect (paint_aggregator w)\<rparr>
               in if update_pending then w1
                  else if \<not> HasPendingUpdate (paint_aggregator w1) then w1
                  else if update_reply_pending w1 then w1
                  else post_CallDoDeferredUpdate w1))"

definition didScrollRect :: "int \<Rightarrow> int \<Rightarrow> Rect \<Rightarrow> RenderWidget \<Rightarrow> RenderWidget" where
  "didScrollRect ddx ddy clip_rect w =
     (let update_pending = HasPendingUpdate (paint_aggregator w);
          view_rect = Rect_of_Size (widget_size w);
          damaged_rect = Intersect view_rect clip_rect
      in if Rect_IsEmpty damaged_rect then w
         else (let w1 = w\<lparr>paint_aggregator := ScrollRect ddx ddy damaged_rect (paint_aggregator w)\<rparr>
               in if update_pending then w1
                  else if \<not> HasPendingUpdate (paint_aggregator w1) then w1
                  else if update_reply_pending w1 then w1
                  else post_CallDoDeferredUpdate w1))"

definition didChangeCursor :: "cursor \<Rightarrow> RenderWidget \<Rightarrow> RenderWidget" where
  "didChangeCursor c w =
     (if current_cursor w \<noteq> c
      then Send_discard \<lparr>msg_routing_id = routing_id_field w, msg_payload = ViewHostMsg_SetCursor c\<rparr>
             (w\<lparr>current_cursor := c\<rparr>)
      else w)"

definition didBlur :: "RenderWidget \<Rightarrow> RenderWidget" where
  "didBlur w = Send_discard \<lparr>msg_routing_id = routing_id_field w, msg_payload = ViewHostMsg_Blur\<rparr> w"

definition closeWidgetSoon :: "RenderWidget \<Rightarrow> RenderWidget" where
  "closeWidgetSoon w = w\<lparr>posted_tasks := posted_tasks w @ [Task_DoDeferredClose]\<rparr>"

definition DoDeferredClose :: "RenderWidget \<Rightarrow> RenderWidget" where
  "DoDeferredClose w = Send_discard \<lparr>msg_routing_id = routing_id_field w, msg_payload = ViewHostMsg_Close\<rparr> w"

text \<open>
  The engine (\<open>webwidget_\<close>) is an external collaborator. While one of its methods runs
  it may call back into the widget through the delegate interface; what it does during a
  call is given to the model as the list of those calls, in order.
\<close>
datatype callback =
    DidInvalidateRect Rect
  | DidScrollRect int int Rect
  | DidChangeCursor cursor
  | DidBlur
  | CloseWidgetSoon

fun run_callback :: "callback \<Rightarrow> RenderWidget \<Rightarrow> RenderWidget" where
  "run_callback (DidInvalidateRect r) w = didInvalidateRect r w"
| "run_callback (DidScrollRect ddx ddy r) w = didScrollRect ddx ddy r w"
| "run_callback (DidChangeCursor c) w = didChangeCursor c w"
| "run_callback DidBlur w = didBlur w"
| "run_callback CloseWidgetSoon w = closeWidgetSoon w"

fun run_callbacks :: "callback list \<Rightarrow> RenderWidget \<Rightarrow> RenderWidget" where
  "run_callbacks [] w = w"
| "run_callbacks (c # cs) w = run_callbacks cs (run_callback c w)"

subsection \<open>Flushing the pending update\<close>

text \<open>
  What \<open>RenderProcess::GetDrawingCanvas(&current_paint_buf_, bounds)\<close> gives back: no
  canvas, with whatever it left in \<open>current_paint_buf_\<close>, or a canvas on a transport
  buffer, with the width and height of the canvas's device.
\<close>
datatype drawing_canvas = NoCanvas "dib_id option" | Canvas dib_id int int

text \<open>
  What the collaborators answer during one run of \<open>DoDeferredUpdate\<close>:
  \<open>isAcceleratedCompositingActive()\<close>, the delegate calls made by \<open>layout()\<close>, the
  result of \<open>GetDrawingCanvas\<close>, the delegate calls made by each \<open>paint()\<close> (one
  list for each painted rectangle, in order), and the engine's \<open>textInputType()\<close> and
  \<open>caretOrSelectionBounds()\<close>.
\<close>
record flush_env =
  accelerated_compositing :: bool
  layout_calls :: "callback list"
  canvas_result :: drawing_canvas
  paint_calls :: "callback list list"
  engine_text_input_type :: text_input_type
  engine_caret_bounds :: Rect

text \<open>\<open>WebKit::WebTextInputTypeNone\<close>.\<close>
definition WebTextInputTypeNone :: text_input_type where
  "WebTextInputTypeNone = 0"

text \<open>The hooks \<open>DidInitiatePaint\<close>, \<open>DidFlushPaint\<close> and \<open>DidHandleKeyEvent\<close> are
  virtual; in \<open>RenderWidget\<close> itself they do nothing.\<close>
definition DidInitiatePaint :: "RenderWidget \<Rightarrow> RenderWidget" where
  "DidInitiatePaint w = w"

definition DidFlushPaint :: "RenderWidget \<Rightarrow> RenderWidget" where
  "DidFlushPaint w = w"

definition DidHandleKeyEvent :: "RenderWidget \<Rightarrow> RenderWidget" where
  "DidHandleKeyEvent w = w"

text \<open>\<open>PaintRect\<close> draws on the canvas and calls \<open>webwidget_->paint\<close>; of this only the
  engine's delegate calls touch the widget.\<close>
definition PaintRect :: "Rect \<Rightarrow> callback list \<Rightarrow> RenderWidget \<Rightarrow> RenderWidget" where
  "PaintRect rect calls w = run_callbacks calls w"

text \<open>The loop \<open>for (i = 0; i < copy_rects.size(); ++i) PaintRect(copy_rects[i], ...)\<close>.\<close>
fun PaintRects :: "Rect list \<Rightarrow> callback list list \<Rightarrow> RenderWidget \<Rightarrow> RenderWidget" where
  "PaintRects [] css w = w"
| "PaintRects (r # rs) css w =
     PaintRects rs (tl css) (PaintRect r (case css of [] \<Rightarrow> [] | cs # _ \<Rightarrow> cs) w)"

definition UpdateInputMethod :: "flush_env \<Rightarrow> RenderWidget \<Rightarrow> RenderWidget" where
  "UpdateInputMethod env w =
     (if \<not> input_method_is_active w then w
      else (let new_type = (if webwidget w then engine_text_input_type env
                            else WebTextInputTypeNone);
                new_caret_bounds = (if webwidget w then engine_caret_bounds env
                                    else Rect_default)
            in if text_input_type_field w \<noteq> new_type \<or> caret_bounds w \<noteq> new_caret_bounds
               then Send_discard
                      \<lparr>msg_routing_id = routing_id_field w,
                       msg_payload = ViewHostMsg_ImeUpdateTextInputState new_type new_caret_bounds\<rparr>
                      (w\<lparr>text_input_type_field := new_type, caret_bounds := new_caret_bounds\<rparr>)
               else w))"

text \<open>
  The rectangles to paint and copy: without a scroll the tracked paint rectangles are
  replaced by the bounds ("TODO(darin): Re-enable painting multiple damage rects", bug
  29589); the scroll damage "is just another rectangle to paint and copy".
\<close>
definition chosen_copy_rects :: "PendingUpdate \<Rightarrow> Rect \<Rightarrow> Rect \<Rightarrow> Rect list" where
  "chosen_copy_rects update scroll_damage bounds =
     (let update_paint_rects = (if Rect_IsEmpty (scroll_rect update) then [bounds]
                                else paint_rects update)
      in update_paint_rects @ (if \<not> Rect_IsEmpty scroll_damage then [scroll_damage] else []))"

text \<open>The \<open>ViewHostMsg_UpdateRect_Params\<close> as filled in after painting. A canvas comes
  with its buffer, so \<open>current_paint_buf_\<close> is not \<open>NULL\<close> where its id is read.\<close>
definition UpdateRect_params ::
  "PendingUpdate \<Rightarrow> Rect \<Rightarrow> Rect list \<Rightarrow> RenderWidget \<Rightarrow> ViewHostMsg_UpdateRect_Params" where
  "UpdateRect_params update bounds the_copy_rects w =
     \<lparr>bitmap = (case current_paint_buf w of Some buf \<Rightarrow> buf | None \<Rightarrow> 0),
      bitmap_rect = bounds,
      dx = fst (scroll_delta update),
      dy = snd (scroll_delta update),
      params_scroll_rect = (if is_gpu_rendering_active w then Rect_default
                            else scroll_rect update),
      copy_rects = (if is_gpu_rendering_active w then [] else the_copy_rects),
      view_size = widget_size w,
      plugin_window_moves = plugin_window_moves_field w,
      flags = next_paint_flags w\<rparr>"

text \<open>
  The part of \<open>DoDeferredUpdate\<close> after a canvas has been obtained: the bounds take the
  canvas's width and height, the rectangles to copy are chosen and painted, the
  parameters filled in and the \<open>ViewHostMsg_UpdateRect\<close> sent.
\<close>
definition paint_and_send ::
  "flush_env \<Rightarrow> PendingUpdate \<Rightarrow> Rect \<Rightarrow> Rect \<Rightarrow> int \<Rightarrow> int \<Rightarrow> RenderWidget \<Rightarrow> RenderWidget" where
  "paint_and_send env update scroll_damage bounds0 dev_width dev_height w =
     (let bounds = bounds0\<lparr>rect_width := dev_width, rect_height := dev_height\<rparr>;
          the_copy_rects = chosen_copy_rects update scroll_damage bounds;
          w1 = PaintRects the_copy_rects (paint_calls env) w;
          params = UpdateRect_params update bounds the_copy_rects w1;
          w2 = w1\<lparr>plugin_window_moves_field := [], update_reply_pending := True\<rparr>;
          w3 = Send_discard \<lparr>msg_routing_id = routing_id_field w2,
                             msg_payload = ViewHostMsg_UpdateRect params\<rparr> w2;
          w4 = w3\<lparr>next_paint_flags := 0\<rparr>;
          w5 = UpdateInputMethod env w4
      in DidInitiatePaint w5)"

text \<open>The host is told when accelerated compositing starts or stops.\<close>
definition report_gpu_rendering :: "flush_env \<Rightarrow> RenderWidget \<Rightarrow> RenderWidget" where
  "report_gpu_rendering env w =
     (if accelerated_compositing env \<noteq> is_gpu_rendering_active w
      then Send_discard
             \<lparr>msg_routing_id = routing_id_field w,
              msg_payload = ViewHostMsg_GpuRenderingActivated (accelerated_compositing env)\<rparr>
             (w\<lparr>is_gpu_rendering_active := accelerated_compositing env\<rparr>)
      else w)"

text \<open>
  \<open>DoDeferredUpdate\<close>. \<open>NOTREACHED()\<close> and the \<open>DCHECK\<close>s on the canvas size are
  assertions of debug builds; the release build goes on as written here.
\<close>
definition DoDeferredUpdate :: "flush_env \<Rightarrow> RenderWidget \<Rightarrow> RenderWidget" where
  "DoDeferredUpdate env w =
     (if \<not> webwidget w \<or> \<not> HasPendingUpdate (paint_aggregator w) \<or> update_reply_pending w
      then w
      else if is_hidden w \<or> Size_IsEmpty (widget_size w)
      then w\<lparr>paint_aggregator := ClearPendingUpdate (paint_aggregator w),
             needs_repainting_on_restore := True\<rparr>
      else (let w1 = report_gpu_rendering env w;
                w2 = run_callbacks (layout_calls env) w1;
                update = GetPendingUpdate (paint_aggregator w2);
                w3 = w2\<lparr>paint_aggregator := ClearPendingUpdate (paint_aggregator w2)\<rparr>;
                scroll_damage = GetScrollDamage update;
                bounds = Union_rect (GetPaintBounds update) scroll_damage
            in case canvas_result env of
                 NoCanvas buf \<Rightarrow> w3\<lparr>current_paint_buf := buf\<rparr>
               | Canvas buf dev_width dev_height \<Rightarrow>
                   paint_and_send env update scroll_damage bounds dev_width dev_height
                     (w3\<lparr>current_paint_buf := Some buf\<rparr>)))"

definition CallDoDeferredUpdate :: "flush_env \<Rightarrow> RenderWidget \<Rightarrow> RenderWidget" where
  "CallDoDeferredUpdate env w =
     (let w1 = DoDeferredUpdate env w
      in case pending_input_event_ack w1 of
           Some ack \<Rightarrow> Send_discard ack (w1\<lparr>pending_input_event_ack := None\<rparr>)
         | None \<Rightarrow> w1)"

subsection \<open>Messages from the host\<close>

definition OnClose :: "RenderWidget \<Rightarrow> RenderWidget" where
  "OnClose w =
     (if closing w then w
      else (let w1 = w\<lparr>closing := True\<rparr>;
                w2 = (if routing_id_field w1 \<noteq> MSG_ROUTING_NONE
                      then SetHidden False
                             (w1\<lparr>render_thread_calls := render_thread_calls w1 @
                                   [RemoveRoute (routing_id_field w1)]\<rparr>)
                      else w1);
                w3 = w2\<lparr>posted_non_nestable_tasks := posted_non_nestable_tasks w2 @ [Task_Close]\<rparr>
            in w3\<lparr>ref_count := ref_count w3 - 1\<rparr>))"

text \<open>\<open>RenderWidget::Close\<close>, the task posted by \<open>OnClose\<close>.\<close>
definition Close :: "RenderWidget \<Rightarrow> RenderWidget" where
  "Close w = (if webwidget w then w\<lparr>webwidget := False\<rparr> else w)"

text \<open>
  \<open>OnResize\<close>; \<open>resize_calls\<close> are the delegate calls the engine makes during
  \<open>webwidget_->resize(new_size)\<close>. The two \<open>DCHECK\<close>s (the size changes, no resize
  ack is still owed) are assertions of debug builds and have no effect on the state.
\<close>
definition OnResize :: "Size \<Rightarrow> Rect \<Rightarrow> callback list \<Rightarrow> RenderWidget \<Rightarrow> RenderWidget" where
  "OnResize new_size new_resizer_rect resize_calls w =
     (if \<not> webwidget w then w
      else (let w1 = w\<lparr>resizer_rect := new_resizer_rect\<rparr>;
                w2 = SetHidden False w1;
                w3 = w2\<lparr>needs_repainting_on_restore := False\<rparr>;
                w4 = w3\<lparr>widget_size := new_size\<rparr>;
                w5 = w4\<lparr>paint_aggregator := ClearPendingUpdate (paint_aggregator w4)\<rparr>;
                w6 = run_callbacks resize_calls w5
            in if \<not> Size_IsEmpty new_size then set_next_paint_is_resize_ack w6 else w6))"

text \<open>Modelled from the spec: \<open>WebWidget::resize\<close> belongs to the engine; a resize
  "forces a full-view invalidation", which reaches the widget as one
  \<open>didInvalidateRect\<close> of the whole new view.\<close>
definition full_view_invalidation :: "Size \<Rightarrow> callback list" where
  "full_view_invalidation new_size =
     [DidInvalidateRect (Rect_wh (size_width new_size) (size_height new_size))]"

definition OnWasHidden :: "RenderWidget \<Rightarrow> RenderWidget" where
  "OnWasHidden w = SetHidden True w"

definition OnWasRestored :: "bool \<Rightarrow> RenderWidget \<Rightarrow> RenderWidget" where
  "OnWasRestored needs_repainting w =
     (if \<not> webwidget w then w
      else (let w1 = SetHidden False w
            in if \<not> needs_repainting \<and> \<not> needs_repainting_on_restore w1 then w1
               else (let w2 = w1\<lparr>needs_repainting_on_restore := False\<rparr>;
                         w3 = set_next_paint_is_restore_ack w2
                     in didInvalidateRect
                          (Rect_wh (size_width (widget_size w3)) (size_height (widget_size w3))) w3)))"

definition OnMsgRepaint :: "Size \<Rightarrow> RenderWidget \<Rightarrow> RenderWidget" where
  "OnMsgRepaint size_to_paint w =
     (if \<not> webwidget w then w
      else didInvalidateRect (Rect_wh (size_width size_to_paint) (size_height size_to_paint))
             (set_next_paint_is_repaint_ack w))"

definition OnSetInputMethodActive :: "bool \<Rightarrow> RenderWidget \<Rightarrow> RenderWidget" where
  "OnSetInputMethodActive is_active w = w\<lparr>input_method_is_active := is_active\<rparr>"

definition OnUpdateRectAck :: "flush_env \<Rightarrow> RenderWidget \<Rightarrow> RenderWidget" where
  "OnUpdateRectAck env w =
     (let w1 = w\<lparr>update_reply_pending := False\<rparr>;
          w2 = (case current_paint_buf w1 of
                  Some buf \<Rightarrow> w1\<lparr>released_dibs := released_dibs w1 @ [buf],
                                 current_paint_buf := None\<rparr>
                | None \<Rightarrow> w1);
          w3 = DidFlushPaint w2
      in CallDoDeferredUpdate env w3)"

text \<open>
  An input event as read from the message: its type and, for \<open>RawKeyDown\<close>, the
  \<open>is_keyboard_shortcut\<close> flag that follows it. The message itself is \<open>None\<close> when
  \<open>ReadData\<close> fails.
\<close>
record input_event =
  event_type :: WebInputEvent_Type
  event_is_keyboard_shortcut :: bool

text \<open>What the engine does in \<open>handleInputEvent\<close>: its result and its delegate calls.\<close>
record input_env =
  engine_processed :: bool
  input_calls :: "callback list"

text \<open>
  The first half of \<open>OnHandleInputEvent\<close>: the event goes to the engine unless it is a
  \<open>Char\<close> event to be suppressed; the result is whether the engine processed it.
\<close>
definition deliver_input_event ::
  "input_event \<Rightarrow> input_env \<Rightarrow> RenderWidget \<Rightarrow> bool \<times> RenderWidget" where
  "deliver_input_event ev env w =
     (let is_keyboard_shortcut =
            (if event_type ev = RawKeyDown then event_is_keyboard_shortcut ev else False);
          dispatch = (event_type ev \<noteq> Char \<or> \<not> suppress_next_char_events w);
          wa = (if dispatch then w\<lparr>suppress_next_char_events := False\<rparr> else w);
          processed = (dispatch \<and> webwidget wa \<and> engine_processed env);
          w1 = (if dispatch \<and> webwidget wa then run_callbacks (input_calls env) wa else wa);
          w2 = (if \<not> processed \<and> is_keyboard_shortcut
                then w1\<lparr>suppress_next_char_events := True\<rparr> else w1)
      in (processed, w2))"

text \<open>
  The second half: the acknowledgement is built and either sent at once or, for a
  \<open>MouseMove\<close> or \<open>MouseWheel\<close> event while the aggregator has a pending update, kept
  in \<open>pending_input_event_ack_\<close> after the acknowledgement held there has been sent.
\<close>
definition acknowledge_input_event ::
  "WebInputEvent_Type \<Rightarrow> bool \<Rightarrow> RenderWidget \<Rightarrow> RenderWidget" where
  "acknowledge_input_event ty processed w =
     (let response = \<lparr>msg_routing_id = routing_id_field w,
                       msg_payload = ViewHostMsg_HandleInputEvent_ACK ty processed\<rparr>
      in if (ty = MouseMove \<or> ty = MouseWheel) \<and> HasPendingUpdate (paint_aggregator w)
         then (let w' = (case pending_input_event_ack w of
                           Some old \<Rightarrow> Send_discard old (w\<lparr>pending_input_event_ack := None\<rparr>)
                         | None \<Rightarrow> w)
               in w'\<lparr>pending_input_event_ack := Some response\<rparr>)
         else Send_discard response w)"

definition OnHandleInputEvent ::
  "input_event option \<Rightarrow> input_env \<Rightarrow> RenderWidget \<Rightarrow> RenderWidget" where
  "OnHandleInputEvent msg env w =
     (let w0 = w\<lparr>handling_input_event := True\<rparr>
      in case msg of
           None \<Rightarrow> w0\<lparr>handling_input_event := False\<rparr>
         | Some ev \<Rightarrow>
            (let (processed, w2) = deliver_input_event ev env w0;
                 w3 = acknowledge_input_event (event_type ev) processed w2;
                 w4 = w3\<lparr>handling_input_event := False\<rparr>
             in if isKeyboardEventType (event_type ev) then DidHandleKeyEvent w4 else w4))"

section \<open>Sequences of operations\<close>

text \<open>
  One turn of the control loop: a message from the host, a delegate call of the engine
  made outside any widget method, or a posted task that runs. The tasks may run at any
  time; the real loop runs only those that were posted, so every real run is one of
  these sequences.
\<close>
datatype op =
    Msg_Close
  | Msg_Resize Size Rect "callback list"
  | Msg_WasHidden
  | Msg_WasRestored bool
  | Msg_UpdateRect_ACK flush_env
  | Msg_HandleInputEvent "input_event option" input_env
  | Msg_Repaint Size
  | Msg_SetInputMethodActive bool
  | Engine_call callback
  | Run_CallDoDeferredUpdate flush_env
  | Run_DoDeferredClose
  | Run_Close

fun step :: "op \<Rightarrow> RenderWidget \<Rightarrow> RenderWidget" where
  "step Msg_Close w = OnClose w"
| "step (Msg_Resize new_size r calls) w = OnResize new_size r calls w"
| "step Msg_WasHidden w = OnWasHidden w"
| "step (Msg_WasRestored b) w = OnWasRestored b w"
| "step (Msg_UpdateRect_ACK env) w = OnUpdateRectAck env w"
| "step (Msg_HandleInputEvent msg env) w = OnHandleInputEvent msg env w"
| "step (Msg_Repaint s) w = OnMsgRepaint s w"
| "step (Msg_SetInputMethodActive b) w = OnSetInputMethodActive b w"
| "step (Engine_call c) w = run_callback c w"
| "step (Run_CallDoDeferredUpdate env) w = CallDoDeferredUpdate env w"
| "step Run_DoDeferredClose w = DoDeferredClose w"
| "step Run_Close w = Close w"

fun run :: "op list \<Rightarrow> RenderWidget \<Rightarrow> RenderWidget" where
  "run [] w = w"
| "run (x # xs) w = run xs (step x w)"

fun is_ack :: "op \<Rightarrow> bool" where
  "is_ack (Msg_UpdateRect_ACK _) = True"
| "is_ack _ = False"

fun is_RemoveRoute :: "render_thread_call \<Rightarrow> bool" where
  "is_RemoveRoute (RemoveRoute _) = True"
| "is_RemoveRoute _ = False"

text \<open>The calls of \<open>render_thread_->RemoveRoute\<close> made so far.\<close>
definition route_removals :: "RenderWidget \<Rightarrow> render_thread_call list" where
  "route_removals w = filter is_RemoveRoute (render_thread_calls w)"

text \<open>The posted \<open>CallDoDeferredUpdate\<close> tasks among the posted tasks.\<close>
definition flush_tasks :: "RenderWidget \<Rightarrow> task list" where
  "flush_tasks w = filter (\<lambda>t. t = Task_CallDoDeferredUpdate) (posted_tasks w)"

text \<open>The slot \<open>pending_input_event_ack_\<close> is empty or holds an input-event
  acknowledgement, the only kind of message ever put there.\<close>
definition pending_ack_ok :: "RenderWidget \<Rightarrow> bool" where
  "pending_ack_ok w =
     (case pending_input_event_ack w of None \<Rightarrow> True | Some m \<Rightarrow> is_InputEvent_ACK m)"

text \<open>
  A transition that sends no frame-update and leaves the in-flight flag alone: it keeps
  the routing id, stays closing if it was, appends messages other than frame-updates
  (none while closing), keeps the acknowledgement slot well-formed and does not clear the
  resize-ack bit.
\<close>
definition quiet :: "RenderWidget \<Rightarrow> RenderWidget \<Rightarrow> bool" where
  "quiet w w' =
     (routing_id_field w' = routing_id_field w \<and>
      update_reply_pending w' = update_reply_pending w \<and>
      (closing w \<longrightarrow> closing w') \<and>
      (\<exists>ms. sent w' = sent w @ ms \<and> (closing w \<longrightarrow> ms = []) \<and>
            (pending_ack_ok w \<longrightarrow> frame_updates ms = [])) \<and>
      (pending_ack_ok w \<longrightarrow> pending_ack_ok w') \<and>
      (is_resize_ack (next_paint_flags w) \<longrightarrow> is_resize_ack (next_paint_flags w')))"

fun is_flush_op :: "op \<Rightarrow> bool" where
  "is_flush_op (Msg_UpdateRect_ACK _) = True"
| "is_flush_op (Run_CallDoDeferredUpdate _) = True"
| "is_flush_op _ = False"

text \<open>The \<open>copy_rects\<close> of the frame-updates sent so far, one list for each.\<close>
definition sent_copy_rects :: "RenderWidget \<Rightarrow> Rect list list" where
  "sent_copy_rects w =
     map (\<lambda>m. case msg_payload m of ViewHostMsg_UpdateRect p \<Rightarrow> copy_rects p | _ \<Rightarrow> [])
       (frame_updates (sent w))"

text \<open>The frame-updates sent between two states of a run, oldest first.\<close>
definition updates_since :: "RenderWidget \<Rightarrow> RenderWidget \<Rightarrow> message list" where
  "updates_since w w' = drop (length (frame_updates (sent w))) (frame_updates (sent w'))"

text \<open>A frame-update whose flags have the resize-ack bit.\<close>
definition carries_resize_ack :: "message \<Rightarrow> bool" where
  "carries_resize_ack m =
     (case msg_payload m of ViewHostMsg_UpdateRect p \<Rightarrow> is_resize_ack (flags p) | _ \<Rightarrow> False)"

text \<open>What \<open>OnClose\<close> is to do once: the closing flag, the routes removed, the
  teardown tasks posted and the reference count.\<close>
definition close_state :: "RenderWidget \<Rightarrow> bool \<times> render_thread_call list \<times> task list \<times> int" where
  "close_state w = (closing w, route_removals w, posted_non_nestable_tasks w, ref_count w)"

text \<open>The conditions under which \<open>DoDeferredUpdate\<close> goes on to acquire a canvas.\<close>
definition flush_ready :: "RenderWidget \<Rightarrow> bool" where
  "flush_ready w =
     (webwidget w \<and> HasPendingUpdate (paint_aggregator w) \<and> \<not> update_reply_pending w \<and>
      \<not> is_hidden w \<and> \<not> Size_IsEmpty (widget_size w))"

text \<open>The bounds \<open>DoDeferredUpdate\<close> asks a canvas for: the paint bounds of the update
  united with its scroll damage.\<close>
definition update_bounds :: "PendingUpdate \<Rightarrow> Rect" where
  "update_bounds u = Union_rect (GetPaintBounds u) (GetScrollDamage u)"

text \<open>1 while no frame-update awaits its acknowledgement, 0 while one does.\<close>
definition idle :: "RenderWidget \<Rightarrow> nat" where
  "idle w = (if update_reply_pending w then 0 else 1)"

section \<open>Concrete widgets and environments\<close>

text \<open>An engine that makes no delegate calls, with a given canvas result.\<close>
definition quiet_env :: "drawing_canvas \<Rightarrow> flush_env" where
  "quiet_env c =
     \<lparr>accelerated_compositing = False, layout_calls = [], canvas_result = c, paint_calls = [],
      engine_text_input_type = 0, engine_caret_bounds = Rect_default\<rparr>"

text \<open>A widget with routing id 7, resized to 800 by 600: the whole view is invalid and a
  deferred update is posted.\<close>
definition resized_widget :: RenderWidget where
  "resized_widget =
     OnResize \<lparr>size_width = 800, size_height = 600\<rparr> Rect_default
       (full_view_invalidation \<lparr>size_width = 800, size_height = 600\<rparr>) (created_widget 7)"

text \<open>The resized widget after its posted deferred update ran and a canvas on buffer 1
  was obtained: one frame-update is in flight.\<close>
definition flushed_widget :: RenderWidget where
  "flushed_widget = CallDoDeferredUpdate (quiet_env (Canvas 1 800 600)) resized_widget"


text \<open>An engine that processes an input event without any delegate call.\<close>
definition handled :: input_env where
  "handled = \<lparr>engine_processed = True, input_calls = []\<rparr>"

definition input_of :: "WebInputEvent_Type \<Rightarrow> input_event option" where
  "input_of ty = Some \<lparr>event_type = ty, event_is_keyboard_shortcut = False\<rparr>"

text \<open>The resized widget, its update still pending, after a mouse move was handled.\<close>
definition moved_widget :: RenderWidget where
  "moved_widget = OnHandleInputEvent (input_of MouseMove) handled resized_widget"

text \<open>The flushed widget after its update was acknowledged and then two invalidations and a
  scroll arrived: a scroll and two separate paint rectangles are pending.\<close>
definition scrolled_widget :: RenderWidget where
  "scrolled_widget =
     run [Msg_UpdateRect_ACK (quiet_env (Canvas 2 800 600)),
          Engine_call (DidInvalidateRect \<lparr>rect_x = 0, rect_y = 0, rect_width = 10, rect_height = 10\<rparr>),
          Engine_call (DidInvalidateRect \<lparr>rect_x = 100, rect_y = 100, rect_width = 10, rect_height = 10\<rparr>),
          Engine_call (DidScrollRect 0 5 \<lparr>rect_x = 0, rect_y = 200, rect_width = 800, rect_height = 400\<rparr>)]
       flushed_widget"

section \<open>Auxiliary facts\<close>

lemma Send_discard_eq:
  "Send_discard m w =
     (if closing w then w
      else w\<lparr>sent := sent w @ [assign_routing_id (routing_id_field w) m]\<rparr>)"
  by (simp add: Send_discard_def Send_def)

lemma is_UpdateRect_assign [simp]:
  "is_UpdateRect (assign_routing_id rid m) = is_UpdateRect m"
  by (simp add: assign_routing_id_def is_UpdateRect_def)

lemma is_InputEvent_ACK_assign [simp]:
  "is_InputEvent_ACK (assign_routing_id rid m) = is_InputEvent_ACK m"
  by (simp add: assign_routing_id_def is_InputEvent_ACK_def)

lemma is_UpdateRect_msg [simp]:
  "is_UpdateRect \<lparr>msg_routing_id = r, msg_payload = p\<rparr> =
     (case p of ViewHostMsg_UpdateRect _ \<Rightarrow> True | _ \<Rightarrow> False)"
  by (simp add: is_UpdateRect_def)

lemma is_InputEvent_ACK_msg [simp]:
  "is_InputEvent_ACK \<lparr>msg_routing_id = r, msg_payload = p\<rparr> =
     (case p of ViewHostMsg_HandleInputEvent_ACK _ _ \<Rightarrow> True | _ \<Rightarrow> False)"
  by (simp add: is_InputEvent_ACK_def)

lemma is_InputEvent_ACK_not_UpdateRect: "is_InputEvent_ACK m \<Longrightarrow> \<not> is_UpdateRect m"
  by (cases "msg_payload m") (simp_all add: is_InputEvent_ACK_def is_UpdateRect_def)

lemma assign_routing_id_same [simp]:
  "assign_routing_id rid \<lparr>msg_routing_id = rid, msg_payload = p\<rparr> = \<lparr>msg_routing_id = rid, msg_payload = p\<rparr>"
  by (simp add: assign_routing_id_def)

lemma run_callback_frame:
  "run_callback c w =
     w\<lparr>paint_aggregator := paint_aggregator (run_callback c w),
       current_cursor := current_cursor (run_callback c w),
       sent := sent (run_callback c w),
       posted_tasks := posted_tasks (run_callback c w)\<rparr>"
  by (cases c)
     (simp_all add: didInvalidateRect_def didScrollRect_def didChangeCursor_def didBlur_def
        closeWidgetSoon_def post_CallDoDeferredUpdate_def Send_discard_eq Let_def)

lemma run_callbacks_frame:
  "run_callbacks cs w =
     w\<lparr>paint_aggregator := paint_aggregator (run_callbacks cs w),
       current_cursor := current_cursor (run_callbacks cs w),
       sent := sent (run_callbacks cs w),
       posted_tasks := posted_tasks (run_callbacks cs w)\<rparr>"
proof (induction cs arbitrary: w)
  case Nil
  show ?case by simp
next
  case (Cons c cs)
  have "run_callbacks (c # cs) w = run_callbacks cs (run_callback c w)" by simp
  also have "\<dots> = (run_callback c w)\<lparr>paint_aggregator := paint_aggregator (run_callbacks (c # cs) w),
       current_cursor := current_cursor (run_callbacks (c # cs) w),
       sent := sent (run_callbacks (c # cs) w),
       posted_tasks := posted_tasks (run_callbacks (c # cs) w)\<rparr>"
    using Cons.IH [of "run_callback c w"] by simp
  also have "\<dots> = w\<lparr>paint_aggregator := paint_aggregator (run_callbacks (c # cs) w),
       current_cursor := current_cursor (run_callbacks (c # cs) w),
       sent := sent (run_callbacks (c # cs) w),
       posted_tasks := posted_tasks (run_callbacks (c # cs) w)\<rparr>"
    by (subst run_callback_frame) simp
  finally show ?case .
qed

lemma run_callbacks_fields:
  "routing_id_field (run_callbacks cs w) = routing_id_field w"
  "webwidget (run_callbacks cs w) = webwidget w"
  "current_paint_buf (run_callbacks cs w) = current_paint_buf w"
  "next_paint_flags (run_callbacks cs w) = next_paint_flags w"
  "update_reply_pending (run_callbacks cs w) = update_reply_pending w"
  "is_hidden (run_callbacks cs w) = is_hidden w"
  "needs_repainting_on_restore (run_callbacks cs w) = needs_repainting_on_restore w"
  "handling_input_event (run_callbacks cs w) = handling_input_event w"
  "closing (run_callbacks cs w) = closing w"
  "input_method_is_active (run_callbacks cs w) = input_method_is_active w"
  "text_input_type_field (run_callbacks cs w) = text_input_type_field w"
  "caret_bounds (run_callbacks cs w) = caret_bounds w"
  "suppress_next_char_events (run_callbacks cs w) = suppress_next_char_events w"
  "is_gpu_rendering_active (run_callbacks cs w) = is_gpu_rendering_active w"
  "widget_size (run_callbacks cs w) = widget_size w"
  "resizer_rect (run_callbacks cs w) = resizer_rect w"
  "pending_input_event_ack (run_callbacks cs w) = pending_input_event_ack w"
  "plugin_window_moves_field (run_callbacks cs w) = plugin_window_moves_field w"
  "render_thread_calls (run_callbacks cs w) = render_thread_calls w"
  "posted_non_nestable_tasks (run_callbacks cs w) = posted_non_nestable_tasks w"
  "released_dibs (run_callbacks cs w) = released_dibs w"
  "ref_count (run_callbacks cs w) = ref_count w"
  by (subst run_callbacks_frame, simp)+

lemma frame_updates_append [simp]: "frame_updates (xs @ ys) = frame_updates xs @ frame_updates ys"
  by (simp add: frame_updates_def)

lemma input_acks_append [simp]: "input_acks (xs @ ys) = input_acks xs @ input_acks ys"
  by (simp add: input_acks_def)

lemma frame_updates_Nil [simp]: "frame_updates [] = []"
  by (simp add: frame_updates_def)

lemma input_acks_Nil [simp]: "input_acks [] = []"
  by (simp add: input_acks_def)

lemma frame_updates_single [simp]: "frame_updates [m] = (if is_UpdateRect m then [m] else [])"
  by (simp add: frame_updates_def)

lemma input_acks_single [simp]: "input_acks [m] = (if is_InputEvent_ACK m then [m] else [])"
  by (simp add: input_acks_def)

text \<open>Delegate calls send cursor and blur notifications only.\<close>

lemma run_callback_sent:
  "\<exists>ms. sent (run_callback c w) = sent w @ ms \<and> frame_updates ms = [] \<and> input_acks ms = []
     \<and> (closing w \<longrightarrow> ms = [])"
  by (cases c)
     (simp_all add: didInvalidateRect_def didScrollRect_def didChangeCursor_def didBlur_def
        closeWidgetSoon_def post_CallDoDeferredUpdate_def Send_discard_eq Let_def)

lemma run_callback_closing [simp]: "closing (run_callback c w) = closing w"
  using run_callbacks_fields(9) [of "[c]" w] by simp

lemma run_callbacks_sent:
  "\<exists>ms. sent (run_callbacks cs w) = sent w @ ms \<and> frame_updates ms = [] \<and> input_acks ms = []
     \<and> (closing w \<longrightarrow> ms = [])"
proof (induction cs arbitrary: w)
  case Nil
  show ?case by simp
next
  case (Cons c cs)
  obtain ms1 where 1: "sent (run_callback c w) = sent w @ ms1" "frame_updates ms1 = []"
    "input_acks ms1 = []" "closing w \<longrightarrow> ms1 = []"
    using run_callback_sent by blast
  obtain ms2 where 2: "sent (run_callbacks cs (run_callback c w)) = sent (run_callback c w) @ ms2"
    "frame_updates ms2 = []" "input_acks ms2 = []" "closing (run_callback c w) \<longrightarrow> ms2 = []"
    using Cons.IH by blast
  show ?case
    by (rule exI [of _ "ms1 @ ms2"]) (use 1 2 in simp)
qed

lemma run_callbacks_frame_updates [simp]:
  "frame_updates (sent (run_callbacks cs w)) = frame_updates (sent w)"
  using run_callbacks_sent [of cs w] by auto

lemma run_callbacks_input_acks [simp]:
  "input_acks (sent (run_callbacks cs w)) = input_acks (sent w)"
  using run_callbacks_sent [of cs w] by auto

lemma run_callbacks_sent_closing:
  "closing w \<Longrightarrow> sent (run_callbacks cs w) = sent w"
  using run_callbacks_sent [of cs w] by auto

lemma PaintRects_frame:
  "PaintRects rs css w =
     w\<lparr>paint_aggregator := paint_aggregator (PaintRects rs css w),
       current_cursor := current_cursor (PaintRects rs css w),
       sent := sent (PaintRects rs css w),
       posted_tasks := posted_tasks (PaintRects rs css w)\<rparr>"
proof (induction rs arbitrary: css w)
  case Nil
  show ?case by simp
next
  case (Cons r rs)
  let ?cs = "case css of [] \<Rightarrow> [] | cs # _ \<Rightarrow> cs"
  let ?w1 = "run_callbacks ?cs w"
  let ?w' = "PaintRects (r # rs) css w"
  have e: "?w' = PaintRects rs (tl css) ?w1" by (simp add: PaintRect_def)
  have "?w' = ?w1\<lparr>paint_aggregator := paint_aggregator ?w', current_cursor := current_cursor ?w',
       sent := sent ?w', posted_tasks := posted_tasks ?w'\<rparr>"
    using Cons.IH [of "tl css" ?w1] e by simp
  also have "\<dots> = w\<lparr>paint_aggregator := paint_aggregator ?w', current_cursor := current_cursor ?w',
       sent := sent ?w', posted_tasks := posted_tasks ?w'\<rparr>"
    by (subst run_callbacks_frame) simp
  finally show ?case .
qed

lemma PaintRects_fields:
  "routing_id_field (PaintRects rs css w) = routing_id_field w"
  "webwidget (PaintRects rs css w) = webwidget w"
  "current_paint_buf (PaintRects rs css w) = current_paint_buf w"
  "next_paint_flags (PaintRects rs css w) = next_paint_flags w"
  "update_reply_pending (PaintRects rs css w) = update_reply_pending w"
  "is_hidden (PaintRects rs css w) = is_hidden w"
  "needs_repainting_on_restore (PaintRects rs css w) = needs_repainting_on_restore w"
  "handling_input_event (PaintRects rs css w) = handling_input_event w"
  "closing (PaintRects rs css w) = closing w"
  "input_method_is_active (PaintRects rs css w) = input_method_is_active w"
  "text_input_type_field (PaintRects rs css w) = text_input_type_field w"
  "caret_bounds (PaintRects rs css w) = caret_bounds w"
  "suppress_next_char_events (PaintRects rs css w) = suppress_next_char_events w"
  "is_gpu_rendering_active (PaintRects rs css w) = is_gpu_rendering_active w"
  "widget_size (PaintRects rs css w) = widget_size w"
  "resizer_rect (PaintRects rs css w) = resizer_rect w"
  "pending_input_event_ack (PaintRects rs css w) = pending_input_event_ack w"
  "plugin_window_moves_field (PaintRects rs css w) = plugin_window_moves_field w"
  "render_thread_calls (PaintRects rs css w) = render_thread_calls w"
  "posted_non_nestable_tasks (PaintRects rs css w) = posted_non_nestable_tasks w"
  "released_dibs (PaintRects rs css w) = released_dibs w"
  "ref_count (PaintRects rs css w) = ref_count w"
  by (subst PaintRects_frame, simp)+

lemma PaintRects_sent:
  "\<exists>ms. sent (PaintRects rs css w) = sent w @ ms \<and> frame_updates ms = [] \<and> input_acks ms = []
     \<and> (closing w \<longrightarrow> ms = [])"
proof (induction rs arbitrary: css w)
  case Nil
  show ?case by simp
next
  case (Cons r rs)
  let ?cs = "case css of [] \<Rightarrow> [] | cs # _ \<Rightarrow> cs"
  let ?w1 = "run_callbacks ?cs w"
  obtain ms1 where 1: "sent ?w1 = sent w @ ms1" "frame_updates ms1 = []"
    "input_acks ms1 = []" "closing w \<longrightarrow> ms1 = []"
    using run_callbacks_sent by blast
  obtain ms2 where 2: "sent (PaintRects rs (tl css) ?w1) = sent ?w1 @ ms2"
    "frame_updates ms2 = []" "input_acks ms2 = []" "closing ?w1 \<longrightarrow> ms2 = []"
    using Cons.IH by blast
  show ?case
    by (rule exI [of _ "ms1 @ ms2"]) (use 1 2 in \<open>simp add: PaintRect_def run_callbacks_fields\<close>)
qed

lemma UpdateInputMethod_frame:
  "UpdateInputMethod env w =
     w\<lparr>text_input_type_field := text_input_type_field (UpdateInputMethod env w),
       caret_bounds := caret_bounds (UpdateInputMethod env w),
       sent := sent (UpdateInputMethod env w)\<rparr>"
  by (simp add: UpdateInputMethod_def Send_discard_eq Let_def)

lemma UpdateInputMethod_sent:
  "\<exists>ms. sent (UpdateInputMethod env w) = sent w @ ms \<and> frame_updates ms = [] \<and> input_acks ms = []
     \<and> (closing w \<longrightarrow> ms = [])"
  by (simp add: UpdateInputMethod_def Send_discard_eq Let_def)

lemma paint_and_send_fields:
  "routing_id_field (paint_and_send env u sd b dw dh w) = routing_id_field w"
  "webwidget (paint_and_send env u sd b dw dh w) = webwidget w"
  "current_paint_buf (paint_and_send env u sd b dw dh w) = current_paint_buf w"
  "is_hidden (paint_and_send env u sd b dw dh w) = is_hidden w"
  "needs_repainting_on_restore (paint_and_send env u sd b dw dh w) = needs_repainting_on_restore w"
  "handling_input_event (paint_and_send env u sd b dw dh w) = handling_input_event w"
  "closing (paint_and_send env u sd b dw dh w) = closing w"
  "input_method_is_active (paint_and_send env u sd b dw dh w) = input_method_is_active w"
  "suppress_next_char_events (paint_and_send env u sd b dw dh w) = suppress_next_char_events w"
  "is_gpu_rendering_active (paint_and_send env u sd b dw dh w) = is_gpu_rendering_active w"
  "widget_size (paint_and_send env u sd b dw dh w) = widget_size w"
  "resizer_rect (paint_and_send env u sd b dw dh w) = resizer_rect w"
  "pending_input_event_ack (paint_and_send env u sd b dw dh w) = pending_input_event_ack w"
  "render_thread_calls (paint_and_send env u sd b dw dh w) = render_thread_calls w"
  "posted_non_nestable_tasks (paint_and_send env u sd b dw dh w) = posted_non_nestable_tasks w"
  "released_dibs (paint_and_send env u sd b dw dh w) = released_dibs w"
  "ref_count (paint_and_send env u sd b dw dh w) = ref_count w"
  "update_reply_pending (paint_and_send env u sd b dw dh w)"
  "next_paint_flags (paint_and_send env u sd b dw dh w) = 0"
  "plugin_window_moves_field (paint_and_send env u sd b dw dh w) = []"
  by (simp_all add: paint_and_send_def Let_def DidInitiatePaint_def UpdateInputMethod_def
        Send_discard_eq PaintRects_fields)

lemma paint_and_send_sent:
  "\<exists>ms1 ms2. sent (paint_and_send env u sd b dw dh w) =
       sent w @ ms1 @
       (if closing w then []
        else [\<lparr>msg_routing_id = routing_id_field w,
               msg_payload = ViewHostMsg_UpdateRect
                 (UpdateRect_params u (b\<lparr>rect_width := dw, rect_height := dh\<rparr>)
                    (chosen_copy_rects u sd (b\<lparr>rect_width := dw, rect_height := dh\<rparr>)) w)\<rparr>]) @ ms2
     \<and> frame_updates ms1 = [] \<and> input_acks ms1 = [] \<and> frame_updates ms2 = [] \<and> input_acks ms2 = []
     \<and> (closing w \<longrightarrow> ms1 = [] \<and> ms2 = [])"
proof -
  let ?bounds = "b\<lparr>rect_width := dw, rect_height := dh\<rparr>"
  let ?crs = "chosen_copy_rects u sd ?bounds"
  let ?w1 = "PaintRects ?crs (paint_calls env) w"
  let ?params = "UpdateRect_params u ?bounds ?crs ?w1"
  let ?w2 = "?w1\<lparr>plugin_window_moves_field := [], update_reply_pending := True\<rparr>"
  let ?w3 = "Send_discard \<lparr>msg_routing_id = routing_id_field ?w2,
                             msg_payload = ViewHostMsg_UpdateRect ?params\<rparr> ?w2"
  let ?w4 = "?w3\<lparr>next_paint_flags := 0\<rparr>"
  have p: "?params = UpdateRect_params u ?bounds ?crs w"
    by (simp add: UpdateRect_params_def PaintRects_fields)
  obtain ms1 where 1: "sent ?w1 = sent w @ ms1" "frame_updates ms1 = []" "input_acks ms1 = []"
      "closing w \<longrightarrow> ms1 = []"
    using PaintRects_sent by blast
  obtain ms2 where 2: "sent (UpdateInputMethod env ?w4) = sent ?w4 @ ms2" "frame_updates ms2 = []"
      "input_acks ms2 = []" "closing ?w4 \<longrightarrow> ms2 = []"
    using UpdateInputMethod_sent by blast
  have c4: "closing ?w4 = closing w"
    by (simp add: Send_discard_eq PaintRects_fields)
  have s4: "sent ?w4 = sent w @ ms1 @
       (if closing w then []
        else [\<lparr>msg_routing_id = routing_id_field w,
               msg_payload = ViewHostMsg_UpdateRect (UpdateRect_params u ?bounds ?crs w)\<rparr>])"
    using 1(1) by (simp add: Send_discard_eq PaintRects_fields p)
  have "sent (paint_and_send env u sd b dw dh w) = sent (UpdateInputMethod env ?w4)"
    by (simp add: paint_and_send_def Let_def DidInitiatePaint_def)
  then have "sent (paint_and_send env u sd b dw dh w) = sent w @ ms1 @
       (if closing w then []
        else [\<lparr>msg_routing_id = routing_id_field w,
               msg_payload = ViewHostMsg_UpdateRect (UpdateRect_params u ?bounds ?crs w)\<rparr>]) @ ms2"
    using 2(1) s4 by simp
  then show ?thesis
    using 1 2 c4 by blast
qed

lemma DoDeferredUpdate_fields:
  "routing_id_field (DoDeferredUpdate env w) = routing_id_field w"
  "webwidget (DoDeferredUpdate env w) = webwidget w"
  "is_hidden (DoDeferredUpdate env w) = is_hidden w"
  "handling_input_event (DoDeferredUpdate env w) = handling_input_event w"
  "closing (DoDeferredUpdate env w) = closing w"
  "input_method_is_active (DoDeferredUpdate env w) = input_method_is_active w"
  "suppress_next_char_events (DoDeferredUpdate env w) = suppress_next_char_events w"
  "widget_size (DoDeferredUpdate env w) = widget_size w"
  "resizer_rect (DoDeferredUpdate env w) = resizer_rect w"
  "pending_input_event_ack (DoDeferredUpdate env w) = pending_input_event_ack w"
  "render_thread_calls (DoDeferredUpdate env w) = render_thread_calls w"
  "posted_non_nestable_tasks (DoDeferredUpdate env w) = posted_non_nestable_tasks w"
  "released_dibs (DoDeferredUpdate env w) = released_dibs w"
  "ref_count (DoDeferredUpdate env w) = ref_count w"
  by (simp_all add: DoDeferredUpdate_def Let_def paint_and_send_fields run_callbacks_fields
        report_gpu_rendering_def Send_discard_eq split: drawing_canvas.split)

lemma report_gpu_rendering_sent:
  "\<exists>ms. sent (report_gpu_rendering env w) = sent w @ ms \<and> frame_updates ms = [] \<and>
     input_acks ms = [] \<and> (closing w \<longrightarrow> ms = [])"
  by (simp add: report_gpu_rendering_def Send_discard_eq)

lemma report_gpu_rendering_fields:
  "is_gpu_rendering_active (report_gpu_rendering env w) = accelerated_compositing env"
  "closing (report_gpu_rendering env w) = closing w"
  "routing_id_field (report_gpu_rendering env w) = routing_id_field w"
  "widget_size (report_gpu_rendering env w) = widget_size w"
  "paint_aggregator (report_gpu_rendering env w) = paint_aggregator w"
  "next_paint_flags (report_gpu_rendering env w) = next_paint_flags w"
  "plugin_window_moves_field (report_gpu_rendering env w) = plugin_window_moves_field w"
  "update_reply_pending (report_gpu_rendering env w) = update_reply_pending w"
  by (auto simp add: report_gpu_rendering_def Send_discard_eq)

lemma run_callback_aggregator_cong:
  "widget_size w = widget_size w' \<Longrightarrow> paint_aggregator w = paint_aggregator w' \<Longrightarrow>
   paint_aggregator (run_callback c w) = paint_aggregator (run_callback c w')"
  by (cases c)
     (simp_all add: didInvalidateRect_def didScrollRect_def didChangeCursor_def didBlur_def
        closeWidgetSoon_def post_CallDoDeferredUpdate_def Send_discard_eq Let_def)

lemma run_callbacks_aggregator_cong:
  "widget_size w = widget_size w' \<Longrightarrow> paint_aggregator w = paint_aggregator w' \<Longrightarrow>
   paint_aggregator (run_callbacks cs w) = paint_aggregator (run_callbacks cs w')"
proof (induction cs arbitrary: w w')
  case Nil
  then show ?case by simp
next
  case (Cons c cs)
  have "widget_size (run_callback c w) = widget_size (run_callback c w')"
    using Cons.prems(1) run_callbacks_fields(15) [of "[c]"] by simp
  moreover have "paint_aggregator (run_callback c w) = paint_aggregator (run_callback c w')"
    using Cons.prems by (rule run_callback_aggregator_cong)
  ultimately have "paint_aggregator (run_callbacks cs (run_callback c w)) =
      paint_aggregator (run_callbacks cs (run_callback c w'))"
    by (rule Cons.IH)
  then show ?case by simp
qed

lemma DoDeferredUpdate_noop:
  "\<not> webwidget w \<or> \<not> HasPendingUpdate (paint_aggregator w) \<or> update_reply_pending w \<Longrightarrow>
   DoDeferredUpdate env w = w"
  by (auto simp add: DoDeferredUpdate_def)

lemma DoDeferredUpdate_hidden:
  "webwidget w \<Longrightarrow> HasPendingUpdate (paint_aggregator w) \<Longrightarrow> \<not> update_reply_pending w \<Longrightarrow>
   is_hidden w \<or> Size_IsEmpty (widget_size w) \<Longrightarrow>
   DoDeferredUpdate env w =
     w\<lparr>paint_aggregator := PendingUpdate_empty, needs_repainting_on_restore := True\<rparr>"
  by (auto simp add: DoDeferredUpdate_def ClearPendingUpdate_def)

lemma DoDeferredUpdate_NoCanvas:
  assumes "flush_ready w" and "canvas_result env = NoCanvas buf"
  shows "DoDeferredUpdate env w =
     (run_callbacks (layout_calls env) (report_gpu_rendering env w))
       \<lparr>paint_aggregator := PendingUpdate_empty, current_paint_buf := buf\<rparr>"
  using assms by (simp add: DoDeferredUpdate_def flush_ready_def Let_def ClearPendingUpdate_def)

lemma DoDeferredUpdate_Canvas:
  assumes "flush_ready w" and "canvas_result env = Canvas buf dw dh"
  shows "DoDeferredUpdate env w =
     (let w2 = run_callbacks (layout_calls env) (report_gpu_rendering env w);
          update = paint_aggregator w2
      in paint_and_send env update (GetScrollDamage update) (update_bounds update) dw dh
           (w2\<lparr>paint_aggregator := PendingUpdate_empty, current_paint_buf := Some buf\<rparr>))"
  using assms
  by (simp add: DoDeferredUpdate_def flush_ready_def Let_def ClearPendingUpdate_def
        GetPendingUpdate_def update_bounds_def)

text \<open>The frame-update a flush sends.\<close>
lemma DoDeferredUpdate_flush:
  assumes "flush_ready w" and "canvas_result env = Canvas buf dw dh"
  defines "u \<equiv> paint_aggregator (run_callbacks (layout_calls env) w)"
  defines "bounds \<equiv> (update_bounds u)\<lparr>rect_width := dw, rect_height := dh\<rparr>"
  shows "frame_updates (sent (DoDeferredUpdate env w)) =
           frame_updates (sent w) @
           (if closing w then []
            else [\<lparr>msg_routing_id = routing_id_field w,
                   msg_payload = ViewHostMsg_UpdateRect
                     \<lparr>bitmap = buf, bitmap_rect = bounds,
                      dx = fst (scroll_delta u), dy = snd (scroll_delta u),
                      params_scroll_rect = (if accelerated_compositing env then Rect_default
                                            else scroll_rect u),
                      copy_rects = (if accelerated_compositing env then []
                                    else chosen_copy_rects u (GetScrollDamage u) bounds),
                      view_size = widget_size w,
                      plugin_window_moves = plugin_window_moves_field w,
                      flags = next_paint_flags w\<rparr>\<rparr>])"
    and "input_acks (sent (DoDeferredUpdate env w)) = input_acks (sent w)"
proof -
  let ?w2 = "run_callbacks (layout_calls env) (report_gpu_rendering env w)"
  let ?w3 = "?w2\<lparr>paint_aggregator := PendingUpdate_empty, current_paint_buf := Some buf\<rparr>"
  have u: "paint_aggregator ?w2 = u"
    unfolding u_def
    by (rule run_callbacks_aggregator_cong) (simp_all add: report_gpu_rendering_fields)
  have D: "DoDeferredUpdate env w =
      paint_and_send env u (GetScrollDamage u) (update_bounds u) dw dh ?w3"
    using DoDeferredUpdate_Canvas [OF assms(1,2)] u by (simp add: Let_def)
  obtain ms0 where 0: "sent (report_gpu_rendering env w) = sent w @ ms0" "frame_updates ms0 = []"
      "input_acks ms0 = []"
    using report_gpu_rendering_sent by blast
  obtain msl where l: "sent ?w2 = sent (report_gpu_rendering env w) @ msl" "frame_updates msl = []"
      "input_acks msl = []"
    using run_callbacks_sent by blast
  obtain ms1 ms2 where s: "sent (paint_and_send env u (GetScrollDamage u) (update_bounds u) dw dh ?w3) =
       sent ?w3 @ ms1 @
       (if closing ?w3 then []
        else [\<lparr>msg_routing_id = routing_id_field ?w3,
               msg_payload = ViewHostMsg_UpdateRect
                 (UpdateRect_params u bounds (chosen_copy_rects u (GetScrollDamage u) bounds) ?w3)\<rparr>]) @ ms2"
     "frame_updates ms1 = []" "input_acks ms1 = []" "frame_updates ms2 = []" "input_acks ms2 = []"
    unfolding bounds_def using paint_and_send_sent by blast
  have p: "UpdateRect_params u bounds (chosen_copy_rects u (GetScrollDamage u) bounds) ?w3 =
      \<lparr>bitmap = buf, bitmap_rect = bounds,
       dx = fst (scroll_delta u), dy = snd (scroll_delta u),
       params_scroll_rect = (if accelerated_compositing env then Rect_default else scroll_rect u),
       copy_rects = (if accelerated_compositing env then []
                     else chosen_copy_rects u (GetScrollDamage u) bounds),
       view_size = widget_size w,
       plugin_window_moves = plugin_window_moves_field w,
       flags = next_paint_flags w\<rparr>"
    by (simp add: UpdateRect_params_def run_callbacks_fields report_gpu_rendering_fields)
  have c: "closing ?w3 = closing w" "routing_id_field ?w3 = routing_id_field w"
    by (simp_all add: run_callbacks_fields report_gpu_rendering_fields)
  have s3: "sent ?w3 = sent w @ ms0 @ msl"
    using 0(1) l(1) by simp
  show "frame_updates (sent (DoDeferredUpdate env w)) =
           frame_updates (sent w) @
           (if closing w then []
            else [\<lparr>msg_routing_id = routing_id_field w,
                   msg_payload = ViewHostMsg_UpdateRect
                     \<lparr>bitmap = buf, bitmap_rect = bounds,
                      dx = fst (scroll_delta u), dy = snd (scroll_delta u),
                      params_scroll_rect = (if accelerated_compositing env then Rect_default
                                            else scroll_rect u),
                      copy_rects = (if accelerated_compositing env then []
                                    else chosen_copy_rects u (GetScrollDamage u) bounds),
                      view_size = widget_size w,
                      plugin_window_moves = plugin_window_moves_field w,
                      flags = next_paint_flags w\<rparr>\<rparr>])"
    unfolding D s(1) s3 p c using 0 l s by simp
  show "input_acks (sent (DoDeferredUpdate env w)) = input_acks (sent w)"
    unfolding D s(1) s3 p c using 0 l s by simp
qed

lemma DoDeferredUpdate_sent:
  "\<exists>ms. sent (DoDeferredUpdate env w) = sent w @ ms \<and> input_acks ms = [] \<and>
     (closing w \<longrightarrow> ms = [])"
proof (cases "flush_ready w")
  case False
  then have "sent (DoDeferredUpdate env w) = sent w"
    by (auto simp add: DoDeferredUpdate_def flush_ready_def)
  then show ?thesis by simp
next
  case True
  let ?w1 = "report_gpu_rendering env w"
  let ?w2 = "run_callbacks (layout_calls env) ?w1"
  obtain ms0 where 0: "sent ?w1 = sent w @ ms0" "input_acks ms0 = []" "closing w \<longrightarrow> ms0 = []"
    using report_gpu_rendering_sent by blast
  obtain msl where l: "sent ?w2 = sent ?w1 @ msl" "input_acks msl = []" "closing ?w1 \<longrightarrow> msl = []"
    using run_callbacks_sent by blast
  show ?thesis
  proof (cases "canvas_result env")
    case (NoCanvas buf)
    have "sent (DoDeferredUpdate env w) = sent w @ (ms0 @ msl)"
      using DoDeferredUpdate_NoCanvas [OF True NoCanvas] 0 l by simp
    then show ?thesis
      using 0 l by (auto simp add: report_gpu_rendering_fields)
  next
    case (Canvas buf dw dh)
    let ?u = "paint_aggregator ?w2"
    let ?w3 = "?w2\<lparr>paint_aggregator := PendingUpdate_empty, current_paint_buf := Some buf\<rparr>"
    obtain ms1 m ms2 where s:
      "sent (paint_and_send env ?u (GetScrollDamage ?u) (update_bounds ?u) dw dh ?w3) =
         sent ?w3 @ ms1 @ (if closing ?w3 then [] else [\<lparr>msg_routing_id = routing_id_field ?w3,
           msg_payload = ViewHostMsg_UpdateRect m\<rparr>]) @ ms2"
      "input_acks ms1 = []" "input_acks ms2 = []" "closing ?w3 \<longrightarrow> ms1 = [] \<and> ms2 = []"
      using paint_and_send_sent [of env ?u "GetScrollDamage ?u" "update_bounds ?u" dw dh ?w3]
      by blast
    have c: "closing ?w3 = closing w"
      by (simp add: run_callbacks_fields report_gpu_rendering_fields)
    have "sent (DoDeferredUpdate env w) = sent w @ (ms0 @ msl @ ms1 @
        (if closing w then [] else [\<lparr>msg_routing_id = routing_id_field ?w3,
           msg_payload = ViewHostMsg_UpdateRect m\<rparr>]) @ ms2)"
      using DoDeferredUpdate_Canvas [OF True Canvas] s(1) 0 l c by (simp add: Let_def)
    then show ?thesis
      using 0 l s c by (auto simp add: report_gpu_rendering_fields)
  qed
qed

lemma DoDeferredUpdate_input_acks [simp]:
  "input_acks (sent (DoDeferredUpdate env w)) = input_acks (sent w)"
  using DoDeferredUpdate_sent [of env w] by auto

lemma DoDeferredUpdate_sent_closing:
  "closing w \<Longrightarrow> sent (DoDeferredUpdate env w) = sent w"
  using DoDeferredUpdate_sent [of env w] by auto

text \<open>What one run of \<open>DoDeferredUpdate\<close> does to the frame-updates, the in-flight flag
  and the paint flags.\<close>
lemma DoDeferredUpdate_outcome:
  "(frame_updates (sent (DoDeferredUpdate env w)) = frame_updates (sent w) \<and>
    (update_reply_pending (DoDeferredUpdate env w) = update_reply_pending w \<or> closing w) \<and>
    (next_paint_flags (DoDeferredUpdate env w) = next_paint_flags w \<or> closing w)) \<or>
   (\<exists>p. frame_updates (sent (DoDeferredUpdate env w)) =
          frame_updates (sent w) @
            [\<lparr>msg_routing_id = routing_id_field w, msg_payload = ViewHostMsg_UpdateRect p\<rparr>] \<and>
        flags p = next_paint_flags w \<and> \<not> update_reply_pending w \<and>
        update_reply_pending (DoDeferredUpdate env w) \<and> \<not> closing w)"
proof (cases "flush_ready w")
  case False
  then have "DoDeferredUpdate env w = w \<or>
      DoDeferredUpdate env w = w\<lparr>paint_aggregator := ClearPendingUpdate (paint_aggregator w),
             needs_repainting_on_restore := True\<rparr>"
    by (auto simp add: DoDeferredUpdate_def flush_ready_def)
  then show ?thesis by auto
next
  case True
  show ?thesis
  proof (cases "canvas_result env")
    case (NoCanvas buf)
    show ?thesis
      using DoDeferredUpdate_NoCanvas [OF True NoCanvas]
      by (simp add: run_callbacks_fields report_gpu_rendering_fields)
        (use report_gpu_rendering_sent [of env w] in auto)
  next
    case (Canvas buf dw dh)
    have u: "update_reply_pending (DoDeferredUpdate env w)"
      using DoDeferredUpdate_Canvas [OF True Canvas] by (simp add: Let_def paint_and_send_fields)
    have n: "\<not> update_reply_pending w"
      using True by (simp add: flush_ready_def)
    show ?thesis
    proof (cases "closing w")
      case True
      then show ?thesis
        by (simp add: DoDeferredUpdate_sent_closing)
    next
      case False
      then show ?thesis
        using DoDeferredUpdate_flush(1) [OF \<open>flush_ready w\<close> Canvas] u n by simp
    qed
  qed
qed

lemma CallDoDeferredUpdate_eq:
  "CallDoDeferredUpdate env w =
     (case pending_input_event_ack w of
        Some ack \<Rightarrow> Send_discard ack ((DoDeferredUpdate env w)\<lparr>pending_input_event_ack := None\<rparr>)
      | None \<Rightarrow> DoDeferredUpdate env w)"
  by (simp add: CallDoDeferredUpdate_def Let_def DoDeferredUpdate_fields)

lemma CallDoDeferredUpdate_fields:
  "routing_id_field (CallDoDeferredUpdate env w) = routing_id_field w"
  "webwidget (CallDoDeferredUpdate env w) = webwidget w"
  "is_hidden (CallDoDeferredUpdate env w) = is_hidden w"
  "closing (CallDoDeferredUpdate env w) = closing w"
  "widget_size (CallDoDeferredUpdate env w) = widget_size w"
  "render_thread_calls (CallDoDeferredUpdate env w) = render_thread_calls w"
  "posted_non_nestable_tasks (CallDoDeferredUpdate env w) = posted_non_nestable_tasks w"
  "released_dibs (CallDoDeferredUpdate env w) = released_dibs w"
  "ref_count (CallDoDeferredUpdate env w) = ref_count w"
  "pending_input_event_ack (CallDoDeferredUpdate env w) = None"
  "update_reply_pending (CallDoDeferredUpdate env w) = update_reply_pending (DoDeferredUpdate env w)"
  "next_paint_flags (CallDoDeferredUpdate env w) = next_paint_flags (DoDeferredUpdate env w)"
  "paint_aggregator (CallDoDeferredUpdate env w) = paint_aggregator (DoDeferredUpdate env w)"
  "current_paint_buf (CallDoDeferredUpdate env w) = current_paint_buf (DoDeferredUpdate env w)"
  by (simp_all add: CallDoDeferredUpdate_eq Send_discard_eq DoDeferredUpdate_fields
        split: option.split)

lemma CallDoDeferredUpdate_sent:
  "sent (CallDoDeferredUpdate env w) =
     sent (DoDeferredUpdate env w) @
     (case pending_input_event_ack w of
        Some ack \<Rightarrow> if closing w then [] else [assign_routing_id (routing_id_field w) ack]
      | None \<Rightarrow> [])"
  by (simp add: CallDoDeferredUpdate_eq Send_discard_eq DoDeferredUpdate_fields
        split: option.split)

lemma CallDoDeferredUpdate_frame_updates:
  "pending_ack_ok w \<Longrightarrow>
   frame_updates (sent (CallDoDeferredUpdate env w)) = frame_updates (sent (DoDeferredUpdate env w))"
  by (auto simp add: CallDoDeferredUpdate_sent pending_ack_ok_def is_InputEvent_ACK_not_UpdateRect
        split: option.split)

lemma quiet_refl [simp]: "quiet w w"
  by (simp add: quiet_def)

lemma quiet_trans: "quiet w w1 \<Longrightarrow> quiet w1 w2 \<Longrightarrow> quiet w w2"
  unfolding quiet_def by (elim conjE exE) (auto)

lemma is_resize_ack_OR: "is_resize_ack f \<Longrightarrow> is_resize_ack (f OR b)"
  by (simp add: is_resize_ack_def bit.conj_disj_distrib2 or_eq_0_iff)

lemma quiet_SetHidden: "quiet w (SetHidden h w)"
  by (simp add: quiet_def SetHidden_def pending_ack_ok_def)

lemma quiet_run_callbacks: "quiet w (run_callbacks cs w)"
  using run_callbacks_sent [of cs w]
  by (auto simp add: quiet_def run_callbacks_fields pending_ack_ok_def)

lemma quiet_run_callback: "quiet w (run_callback c w)"
  using quiet_run_callbacks [of w "[c]"] by simp

lemma quiet_set_flags:
  "quiet w (set_next_paint_is_resize_ack w)"
  "quiet w (set_next_paint_is_restore_ack w)"
  "quiet w (set_next_paint_is_repaint_ack w)"
  by (simp_all add: quiet_def set_next_paint_is_resize_ack_def set_next_paint_is_restore_ack_def
        set_next_paint_is_repaint_ack_def pending_ack_ok_def is_resize_ack_OR)

lemma quiet_OnClose: "quiet w (OnClose w)"
  by (simp add: quiet_def OnClose_def Let_def SetHidden_def pending_ack_ok_def)

lemma quiet_Close: "quiet w (Close w)"
  by (simp add: quiet_def Close_def pending_ack_ok_def)

lemma quiet_DoDeferredClose: "quiet w (DoDeferredClose w)"
  by (simp add: quiet_def DoDeferredClose_def Send_discard_eq pending_ack_ok_def)

lemma quiet_OnSetInputMethodActive: "quiet w (OnSetInputMethodActive b w)"
  by (simp add: quiet_def OnSetInputMethodActive_def pending_ack_ok_def)

lemma quiet_OnWasHidden: "quiet w (OnWasHidden w)"
  by (simp add: OnWasHidden_def quiet_SetHidden)

lemma quiet_OnMsgRepaint: "quiet w (OnMsgRepaint s w)"
proof (cases "webwidget w")
  case False
  then show ?thesis by (simp add: OnMsgRepaint_def)
next
  case True
  let ?r = "Rect_wh (size_width s) (size_height s)"
  have "quiet (set_next_paint_is_repaint_ack w)
          (run_callback (DidInvalidateRect ?r) (set_next_paint_is_repaint_ack w))"
    by (rule quiet_run_callback)
  with quiet_set_flags(3) [of w] have "quiet w (didInvalidateRect ?r (set_next_paint_is_repaint_ack w))"
    by (auto intro: quiet_trans)
  with True show ?thesis by (simp add: OnMsgRepaint_def)
qed

lemma quiet_field_updates:
  "quiet w (w\<lparr>needs_repainting_on_restore := a\<rparr>)"
  "quiet w (w\<lparr>resizer_rect := b\<rparr>)"
  "quiet w (w\<lparr>widget_size := c\<rparr>)"
  "quiet w (w\<lparr>paint_aggregator := d\<rparr>)"
  "quiet w (w\<lparr>handling_input_event := e\<rparr>)"
  "quiet w (w\<lparr>suppress_next_char_events := f\<rparr>)"
  by (simp_all add: quiet_def pending_ack_ok_def)

lemma quiet_OnWasRestored: "quiet w (OnWasRestored b w)"
proof -
  let ?w1 = "SetHidden False w"
  let ?w2 = "?w1\<lparr>needs_repainting_on_restore := False\<rparr>"
  let ?w3 = "set_next_paint_is_restore_ack ?w2"
  let ?r = "Rect_wh (size_width (widget_size ?w3)) (size_height (widget_size ?w3))"
  have 1: "quiet w ?w1" by (rule quiet_SetHidden)
  have 2: "quiet w ?w2" using 1 quiet_field_updates(1) by (rule quiet_trans)
  have 3: "quiet w ?w3" using 2 quiet_set_flags(2) by (rule quiet_trans)
  have "quiet ?w3 (run_callback (DidInvalidateRect ?r) ?w3)" by (rule quiet_run_callback)
  then have 4: "quiet w (didInvalidateRect ?r ?w3)"
    using 3 by (auto intro: quiet_trans)
  show ?thesis
    using 1 4 by (simp add: OnWasRestored_def Let_def)
qed

lemma quiet_OnResize: "quiet w (OnResize s r cs w)"
proof (cases "webwidget w")
  case False
  then show ?thesis by (simp add: OnResize_def)
next
  case True
  let ?w1 = "w\<lparr>resizer_rect := r\<rparr>"
  let ?w2 = "SetHidden False ?w1"
  let ?w3 = "?w2\<lparr>needs_repainting_on_restore := False\<rparr>"
  let ?w4 = "?w3\<lparr>widget_size := s\<rparr>"
  let ?w5 = "?w4\<lparr>paint_aggregator := ClearPendingUpdate (paint_aggregator ?w4)\<rparr>"
  let ?w6 = "run_callbacks cs ?w5"
  have 1: "quiet w ?w1" by (rule quiet_field_updates)
  have 2: "quiet w ?w2" using 1 quiet_SetHidden by (rule quiet_trans)
  have 3: "quiet w ?w3" using 2 quiet_field_updates(1) by (rule quiet_trans)
  have 4: "quiet w ?w4" using 3 quiet_field_updates(3) by (rule quiet_trans)
  have 5: "quiet w ?w5" using 4 quiet_field_updates(4) by (rule quiet_trans)
  have 6: "quiet w ?w6" using 5 quiet_run_callbacks by (rule quiet_trans)
  have 7: "quiet w (set_next_paint_is_resize_ack ?w6)"
    using 6 quiet_set_flags(1) by (rule quiet_trans)
  show ?thesis
    using True 6 7 by (simp add: OnResize_def Let_def)
qed

lemma quiet_deliver_input_event: "quiet w (snd (deliver_input_event ev env w))"
proof -
  let ?wa = "w\<lparr>suppress_next_char_events := False\<rparr>"
  have a: "quiet w ?wa" by (rule quiet_field_updates)
  have b: "quiet w (run_callbacks (input_calls env) ?wa)"
    using a quiet_run_callbacks by (rule quiet_trans)
  have c: "quiet w ((run_callbacks (input_calls env) ?wa)\<lparr>suppress_next_char_events := True\<rparr>)"
    using b quiet_field_updates(6) by (rule quiet_trans)
  have d: "quiet w (w\<lparr>suppress_next_char_events := True\<rparr>)" by (rule quiet_field_updates)
  show ?thesis
    using a b c d by (simp add: deliver_input_event_def Let_def)
qed

lemma quiet_acknowledge_input_event: "quiet w (acknowledge_input_event ty p w)"
  by (auto simp add: quiet_def acknowledge_input_event_def Let_def Send_discard_eq
        pending_ack_ok_def is_InputEvent_ACK_not_UpdateRect split: option.split)

lemma quiet_OnHandleInputEvent: "quiet w (OnHandleInputEvent msg env w)"
proof (cases msg)
  case None
  then show ?thesis
    by (simp add: OnHandleInputEvent_def quiet_def pending_ack_ok_def)
next
  case (Some ev)
  let ?w0 = "w\<lparr>handling_input_event := True\<rparr>"
  let ?d = "deliver_input_event ev env ?w0"
  let ?w3 = "acknowledge_input_event (event_type ev) (fst ?d) (snd ?d)"
  have 0: "quiet w ?w0" by (rule quiet_field_updates)
  have 2: "quiet w (snd ?d)" using 0 quiet_deliver_input_event by (rule quiet_trans)
  have 3: "quiet w ?w3" using 2 quiet_acknowledge_input_event by (rule quiet_trans)
  have 4: "quiet w (?w3\<lparr>handling_input_event := False\<rparr>)"
    using 3 quiet_field_updates(5) by (rule quiet_trans)
  show ?thesis
    using Some 4
    by (simp add: OnHandleInputEvent_def Let_def DidHandleKeyEvent_def split_beta)
qed

lemma quiet_step: "\<not> is_flush_op x \<Longrightarrow> quiet w (step x w)"
  by (cases x)
     (simp_all add: quiet_OnClose quiet_OnResize quiet_OnWasHidden quiet_OnWasRestored
        quiet_OnHandleInputEvent quiet_OnMsgRepaint quiet_OnSetInputMethodActive
        quiet_run_callback quiet_DoDeferredClose quiet_Close)

lemma OnUpdateRectAck_eq:
  "OnUpdateRectAck env w =
     CallDoDeferredUpdate env
       (w\<lparr>update_reply_pending := False, current_paint_buf := None,
          released_dibs := released_dibs w @
            (case current_paint_buf w of Some buf \<Rightarrow> [buf] | None \<Rightarrow> [])\<rparr>)"
proof (cases "current_paint_buf w")
  case None
  have "CallDoDeferredUpdate env (w\<lparr>update_reply_pending := False\<rparr>) =
      CallDoDeferredUpdate env (w\<lparr>update_reply_pending := False, current_paint_buf := None\<rparr>)"
    by (rule arg_cong [where f = "CallDoDeferredUpdate env"]) (use None in \<open>cases w; simp\<close>)
  with None show ?thesis
    by (simp add: OnUpdateRectAck_def Let_def DidFlushPaint_def)
next
  case (Some buf)
  have "CallDoDeferredUpdate env
          (w\<lparr>update_reply_pending := False, released_dibs := released_dibs w @ [buf],
             current_paint_buf := None\<rparr>) =
        CallDoDeferredUpdate env
          (w\<lparr>update_reply_pending := False, current_paint_buf := None,
             released_dibs := released_dibs w @ [buf]\<rparr>)"
    by (rule arg_cong [where f = "CallDoDeferredUpdate env"]) (cases w; simp)
  with Some show ?thesis
    by (simp add: OnUpdateRectAck_def Let_def DidFlushPaint_def)
qed

lemma CallDoDeferredUpdate_keeps_in_flight:
  "update_reply_pending w \<Longrightarrow> update_reply_pending (CallDoDeferredUpdate env w)"
  by (simp add: CallDoDeferredUpdate_fields DoDeferredUpdate_noop)

lemma CallDoDeferredUpdate_outcome:
  assumes "pending_ack_ok w"
  shows "(frame_updates (sent (CallDoDeferredUpdate env w)) = frame_updates (sent w) \<and>
    (update_reply_pending (CallDoDeferredUpdate env w) = update_reply_pending w \<or> closing w) \<and>
    (next_paint_flags (CallDoDeferredUpdate env w) = next_paint_flags w \<or> closing w)) \<or>
   (\<exists>p. frame_updates (sent (CallDoDeferredUpdate env w)) =
          frame_updates (sent w) @
            [\<lparr>msg_routing_id = routing_id_field w, msg_payload = ViewHostMsg_UpdateRect p\<rparr>] \<and>
        flags p = next_paint_flags w \<and> \<not> update_reply_pending w \<and>
        update_reply_pending (CallDoDeferredUpdate env w) \<and> \<not> closing w)"
  using DoDeferredUpdate_outcome [of env w]
  by (simp add: CallDoDeferredUpdate_frame_updates [OF assms] CallDoDeferredUpdate_fields)

lemma CallDoDeferredUpdate_sent_closing:
  "closing w \<Longrightarrow> sent (CallDoDeferredUpdate env w) = sent w"
  by (simp add: CallDoDeferredUpdate_sent DoDeferredUpdate_sent_closing split: option.split)

lemma pending_ack_ok_CallDoDeferredUpdate [simp]:
  "pending_ack_ok (CallDoDeferredUpdate env w)"
  by (simp add: pending_ack_ok_def CallDoDeferredUpdate_fields)

lemma pending_ack_ok_step: "pending_ack_ok w \<Longrightarrow> pending_ack_ok (step x w)"
proof (cases "is_flush_op x")
  case True
  then show ?thesis
    by (cases x) (simp_all add: OnUpdateRectAck_eq)
next
  case False
  assume "pending_ack_ok w"
  with quiet_step [OF False, of w] show ?thesis
    by (simp add: quiet_def)
qed

lemma pending_ack_ok_run: "pending_ack_ok w \<Longrightarrow> pending_ack_ok (run ops w)"
  by (induction ops arbitrary: w) (simp_all add: pending_ack_ok_step)

lemma routing_id_field_step [simp]: "routing_id_field (step x w) = routing_id_field w"
proof (cases "is_flush_op x")
  case True
  then show ?thesis
    by (cases x) (simp_all add: OnUpdateRectAck_eq CallDoDeferredUpdate_fields)
next
  case False
  with quiet_step [OF False, of w] show ?thesis
    by (simp add: quiet_def)
qed

lemma closing_step: "closing w \<Longrightarrow> closing (step x w) \<and> sent (step x w) = sent w"
proof (cases "is_flush_op x")
  case True
  assume "closing w"
  with True show ?thesis
    by (cases x)
       (simp_all add: OnUpdateRectAck_eq CallDoDeferredUpdate_fields
          CallDoDeferredUpdate_sent_closing)
next
  case False
  assume "closing w"
  with quiet_step [OF False, of w] show ?thesis
    by (auto simp add: quiet_def)
qed

lemma closing_run: "closing w \<Longrightarrow> closing (run ops w) \<and> sent (run ops w) = sent w"
proof (induction ops arbitrary: w)
  case Nil
  then show ?case by simp
next
  case (Cons x xs)
  from closing_step [OF Cons.prems, of x]
  have 1: "closing (step x w)" and 2: "sent (step x w) = sent w" by simp_all
  from Cons.IH [OF 1] 2 show ?case by simp
qed

text \<open>While an update is in flight, an operation other than the acknowledgement sends no
  frame-update and leaves the update in flight.\<close>
lemma in_flight_step:
  assumes "pending_ack_ok w" and "update_reply_pending w" and "\<not> is_ack x"
  shows "update_reply_pending (step x w) \<and>
         frame_updates (sent (step x w)) = frame_updates (sent w)"
proof (cases "is_flush_op x")
  case True
  with assms(3) obtain env where x: "x = Run_CallDoDeferredUpdate env"
    by (cases x) simp_all
  have "DoDeferredUpdate env w = w"
    using assms(2) by (simp add: DoDeferredUpdate_noop)
  then show ?thesis
    using x assms(1,2)
    by (simp add: CallDoDeferredUpdate_fields CallDoDeferredUpdate_frame_updates)
next
  case False
  with quiet_step [OF False, of w] assms show ?thesis
    by (auto simp add: quiet_def)
qed

lemma in_flight_run:
  "pending_ack_ok w \<Longrightarrow> update_reply_pending w \<Longrightarrow> list_all (\<lambda>x. \<not> is_ack x) ops \<Longrightarrow>
   update_reply_pending (run ops w) \<and> frame_updates (sent (run ops w)) = frame_updates (sent w)"
proof (induction ops arbitrary: w)
  case Nil
  then show ?case by simp
next
  case (Cons x xs)
  have nx: "\<not> is_ack x" and nxs: "list_all (\<lambda>x. \<not> is_ack x) xs"
    using Cons.prems(3) by simp_all
  from in_flight_step [OF Cons.prems(1,2) nx]
  have 1: "update_reply_pending (step x w)"
    and 2: "frame_updates (sent (step x w)) = frame_updates (sent w)" by simp_all
  from Cons.IH [OF pending_ack_ok_step [OF Cons.prems(1)] 1 nxs] 2 show ?case by simp
qed

text \<open>Frame-updates sent plus idleness grows by at most one, and only with an
  acknowledgement.\<close>
lemma count_step:
  assumes "pending_ack_ok w"
  shows "length (frame_updates (sent (step x w))) + idle (step x w) \<le>
         length (frame_updates (sent w)) + idle w + (if is_ack x then 1 else 0)"
proof (cases "is_flush_op x")
  case False
  then have "\<not> is_ack x" by (cases x) simp_all
  with quiet_step [OF False, of w] assms show ?thesis
    by (auto simp add: quiet_def idle_def)
next
  case True
  then consider env where "x = Run_CallDoDeferredUpdate env" | env where "x = Msg_UpdateRect_ACK env"
    by (cases x) simp_all
  then show ?thesis
  proof cases
    case 1
    with CallDoDeferredUpdate_outcome [OF assms, of env]
      CallDoDeferredUpdate_keeps_in_flight [of w env] show ?thesis
      by (auto simp add: idle_def)
  next
    case 2
    let ?w0 = "w\<lparr>update_reply_pending := False, current_paint_buf := None,
          released_dibs := released_dibs w @
            (case current_paint_buf w of Some buf \<Rightarrow> [buf] | None \<Rightarrow> [])\<rparr>"
    have ok: "pending_ack_ok ?w0"
      using assms by (simp add: pending_ack_ok_def)
    from CallDoDeferredUpdate_outcome [OF ok, of env] 2 show ?thesis
      by (auto simp add: idle_def OnUpdateRectAck_eq)
  qed
qed

lemma count_run:
  "pending_ack_ok w \<Longrightarrow>
   length (frame_updates (sent (run ops w))) + idle (run ops w) \<le>
   length (frame_updates (sent w)) + idle w + length (filter is_ack ops)"
proof (induction ops arbitrary: w)
  case Nil
  then show ?case by simp
next
  case (Cons x xs)
  from Cons.IH [OF pending_ack_ok_step [OF Cons.prems], of x] count_step [OF Cons.prems, of x]
  show ?case by (cases "is_ack x") simp_all
qed

lemma close_state_run_callbacks [simp]: "close_state (run_callbacks cs w) = close_state w"
  by (simp add: close_state_def route_removals_def run_callbacks_fields)

lemma close_state_run_callback [simp]: "close_state (run_callback c w) = close_state w"
  using close_state_run_callbacks [of "[c]" w] by simp

lemma close_state_didInvalidateRect [simp]: "close_state (didInvalidateRect r w) = close_state w"
  using close_state_run_callbacks [of "[DidInvalidateRect r]" w] by simp

lemma close_state_CallDoDeferredUpdate [simp]:
  "close_state (CallDoDeferredUpdate env w) = close_state w"
  by (simp add: close_state_def route_removals_def CallDoDeferredUpdate_fields)

lemma close_state_deliver_input_event [simp]:
  "close_state (snd (deliver_input_event ev env w)) = close_state w"
  by (simp add: close_state_def route_removals_def deliver_input_event_def Let_def
        run_callbacks_fields)

lemma close_state_acknowledge_input_event [simp]:
  "close_state (acknowledge_input_event ty p w) = close_state w"
  by (simp add: close_state_def route_removals_def acknowledge_input_event_def Let_def
        Send_discard_eq split: option.split)

lemma close_state_step:
  "x \<noteq> Msg_Close \<Longrightarrow> close_state (step x w) = close_state w"
proof (cases x)
  case (Msg_Resize s r cs)
  have "close_state (OnResize s r cs w) = (closing w, route_removals w, posted_non_nestable_tasks w, ref_count w)"
    by (simp add: close_state_def route_removals_def OnResize_def Let_def SetHidden_def
        run_callbacks_fields set_next_paint_is_resize_ack_def)
  with Msg_Resize show ?thesis by (simp add: close_state_def)
next
  case (Msg_WasRestored b)
  let ?w1 = "SetHidden False w"
  let ?w3 = "set_next_paint_is_restore_ack (?w1\<lparr>needs_repainting_on_restore := False\<rparr>)"
  have 1: "close_state ?w1 = close_state w" "close_state ?w3 = close_state w"
    by (simp_all add: close_state_def route_removals_def SetHidden_def
          set_next_paint_is_restore_ack_def)
  have "close_state (didInvalidateRect r ?w3) = close_state w" for r
    using 1 by simp
  with 1 Msg_WasRestored show ?thesis
    by (simp add: OnWasRestored_def Let_def)
next
  case (Msg_Repaint s)
  let ?w1 = "set_next_paint_is_repaint_ack w"
  have 1: "close_state ?w1 = close_state w"
    by (simp add: close_state_def route_removals_def set_next_paint_is_repaint_ack_def)
  have "close_state (didInvalidateRect r ?w1) = close_state w" for r
    using 1 by simp
  with Msg_Repaint show ?thesis
    by (simp add: OnMsgRepaint_def)
next
  case (Msg_HandleInputEvent msg env)
  show ?thesis
  proof (cases msg)
    case None
    with Msg_HandleInputEvent show ?thesis
      by (simp add: OnHandleInputEvent_def close_state_def route_removals_def)
  next
    case (Some ev)
    let ?w0 = "w\<lparr>handling_input_event := True\<rparr>"
    let ?d = "deliver_input_event ev env ?w0"
    let ?w3 = "acknowledge_input_event (event_type ev) (fst ?d) (snd ?d)"
    have 0: "close_state ?w0 = close_state w"
      by (simp add: close_state_def route_removals_def)
    have "close_state ?w3 = close_state w"
      using 0 by simp
    then have "close_state (?w3\<lparr>handling_input_event := False\<rparr>) = close_state w"
      by (simp add: close_state_def route_removals_def)
    with Some Msg_HandleInputEvent show ?thesis
      by (simp add: OnHandleInputEvent_def Let_def DidHandleKeyEvent_def split_beta)
  qed
next
  case (Msg_UpdateRect_ACK env)
  then show ?thesis
    by (simp add: OnUpdateRectAck_eq) (simp add: close_state_def route_removals_def)
next
  case (Engine_call c)
  then show ?thesis by simp
next
  case (Run_CallDoDeferredUpdate env)
  then show ?thesis by simp
qed (simp_all add: close_state_def route_removals_def OnWasHidden_def SetHidden_def
       OnSetInputMethodActive_def DoDeferredClose_def Send_discard_eq Close_def)

lemma OnClose_closing: "closing w \<Longrightarrow> OnClose w = w"
  by (simp add: OnClose_def)

lemma close_state_OnClose:
  "\<not> closing w \<Longrightarrow>
   close_state (OnClose w) =
     (True,
      route_removals w @ (if routing_id_field w \<noteq> MSG_ROUTING_NONE
                          then [RemoveRoute (routing_id_field w)] else []),
      posted_non_nestable_tasks w @ [Task_Close],
      ref_count w - 1)"
  by (simp add: close_state_def route_removals_def OnClose_def Let_def SetHidden_def)

lemma close_state_closing_step: "closing w \<Longrightarrow> close_state (step x w) = close_state w"
  by (cases "x = Msg_Close") (simp_all add: OnClose_closing close_state_step)

lemma close_state_closing_run: "closing w \<Longrightarrow> close_state (run ops w) = close_state w"
proof (induction ops arbitrary: w)
  case Nil
  show ?case by simp
next
  case (Cons x xs)
  have "closing (step x w)"
    using closing_step [OF Cons.prems] by simp
  then show ?case
    using Cons.IH [of "step x w"] close_state_closing_step [OF Cons.prems, of x] by simp
qed

text \<open>Over any sequence of operations the route is removed, the teardown posted and the
  reference released at most once: when the widget starts closing.\<close>
lemma close_state_run:
  "close_state (run ops w) =
     (if closing w \<or> \<not> closing (run ops w) then close_state w
      else (True,
            route_removals w @ (if routing_id_field w \<noteq> MSG_ROUTING_NONE
                                then [RemoveRoute (routing_id_field w)] else []),
            posted_non_nestable_tasks w @ [Task_Close],
            ref_count w - 1))"
proof (induction ops arbitrary: w)
  case Nil
  show ?case by (simp add: close_state_def)
next
  case (Cons x xs)
  show ?case
  proof (cases "closing w")
    case True
    then show ?thesis
      using close_state_closing_run [of w "x # xs"] by simp
  next
    case False
    show ?thesis
    proof (cases "x = Msg_Close")
      case True
      have c: "closing (OnClose w)"
        using False by (simp add: OnClose_def Let_def SetHidden_def)
      have "close_state (run xs (OnClose w)) = close_state (OnClose w)"
        using c by (rule close_state_closing_run)
      moreover have "closing (run xs (OnClose w))"
        using closing_run [OF c] by simp
      ultimately show ?thesis
        using True False close_state_OnClose [OF False] by simp
    next
      case nc: False
      have s: "close_state (step x w) = close_state w"
        using nc by (rule close_state_step)
      then have "closing (step x w) = closing w" "route_removals (step x w) = route_removals w"
        "posted_non_nestable_tasks (step x w) = posted_non_nestable_tasks w"
        "ref_count (step x w) = ref_count w"
        by (simp_all add: close_state_def)
      then show ?thesis
        using Cons.IH [of "step x w"] s False by simp
    qed
  qed
qed

section \<open>The claims\<close>

lemma resized_widget_eq:
  "resized_widget =
     (created_widget 7)
       \<lparr>widget_size := \<lparr>size_width = 800, size_height = 600\<rparr>,
        paint_aggregator := \<lparr>scroll_delta = (0, 0), scroll_rect = Rect_default,
                              paint_rects = [Rect_wh 800 600]\<rparr>,
        posted_tasks := [Task_CallDoDeferredUpdate],
        next_paint_flags := 1\<rparr>"
  by (simp add: resized_widget_def OnResize_def created_widget_def full_view_invalidation_def
        SetHidden_def ClearPendingUpdate_def PendingUpdate_empty_def didInvalidateRect_def
        Let_def Rect_of_Size_def Rect_wh_def Intersect_def rect_right_def rect_bottom_def
        Rect_IsEmpty_def HasPendingUpdate_def Rect_default_def InvalidateRect_def
        post_CallDoDeferredUpdate_def Size_IsEmpty_def set_next_paint_is_resize_ack_def
        IS_RESIZE_ACK_def)

text \<open>
  Claim C3 (flush preconditions). \<open>DoDeferredUpdate\<close> is a no-op, sending nothing and
  leaving the whole state as it was, when the aggregator has no pending update or an
  update is in flight. Past that check (the engine is there, an update is pending, none
  is in flight), when the widget is hidden or its size is empty, it clears the
  aggregator, sets \<open>needs_repainting_on_restore_\<close> and sends nothing.
\<close>
theorem flush_preconditions:
  "(\<not> HasPendingUpdate (paint_aggregator w) \<or> update_reply_pending w \<longrightarrow>
      DoDeferredUpdate env w = w) \<and>
   (webwidget w \<and> HasPendingUpdate (paint_aggregator w) \<and> \<not> update_reply_pending w \<and>
    (is_hidden w \<or> Size_IsEmpty (widget_size w)) \<longrightarrow>
      DoDeferredUpdate env w =
        w\<lparr>paint_aggregator := ClearPendingUpdate (paint_aggregator w),
          needs_repainting_on_restore := True\<rparr> \<and>
      \<not> HasPendingUpdate (paint_aggregator (DoDeferredUpdate env w)) \<and>
      needs_repainting_on_restore (DoDeferredUpdate env w) \<and>
      sent (DoDeferredUpdate env w) = sent w)"
  by (auto simp add: DoDeferredUpdate_noop DoDeferredUpdate_hidden ClearPendingUpdate_def
        HasPendingUpdate_def PendingUpdate_empty_def Rect_IsEmpty_def Rect_default_def)

theorem flush_preconditions_witness:
  "\<not> HasPendingUpdate (paint_aggregator (created_widget 7)) \<and>
   DoDeferredUpdate (quiet_env (Canvas 1 800 600)) (created_widget 7) = created_widget 7 \<and>
   webwidget (OnWasHidden resized_widget) \<and>
   HasPendingUpdate (paint_aggregator (OnWasHidden resized_widget)) \<and>
   \<not> update_reply_pending (OnWasHidden resized_widget) \<and>
   is_hidden (OnWasHidden resized_widget) \<and>
   \<not> HasPendingUpdate
       (paint_aggregator (DoDeferredUpdate (quiet_env (Canvas 1 800 600)) (OnWasHidden resized_widget))) \<and>
   needs_repainting_on_restore
       (DoDeferredUpdate (quiet_env (Canvas 1 800 600)) (OnWasHidden resized_widget)) \<and>
   sent (DoDeferredUpdate (quiet_env (Canvas 1 800 600)) (OnWasHidden resized_widget)) = []"
proof -
  have a: "\<not> HasPendingUpdate (paint_aggregator (created_widget 7))"
    by (simp add: created_widget_def HasPendingUpdate_def PendingUpdate_empty_def
          Rect_IsEmpty_def Rect_default_def)
  have b: "webwidget (OnWasHidden resized_widget) \<and>
      HasPendingUpdate (paint_aggregator (OnWasHidden resized_widget)) \<and>
      \<not> update_reply_pending (OnWasHidden resized_widget) \<and>
      (is_hidden (OnWasHidden resized_widget) \<or> Size_IsEmpty (widget_size (OnWasHidden resized_widget)))"
    by (simp add: resized_widget_eq OnWasHidden_def SetHidden_def created_widget_def
          HasPendingUpdate_def)
  have c: "sent (OnWasHidden resized_widget) = []" "is_hidden (OnWasHidden resized_widget)"
    by (simp_all add: resized_widget_eq OnWasHidden_def SetHidden_def created_widget_def)
  have 1: "DoDeferredUpdate (quiet_env (Canvas 1 800 600)) (created_widget 7) = created_widget 7"
    using flush_preconditions [of "created_widget 7" "quiet_env (Canvas 1 800 600)"] a by blast
  have 2: "\<not> HasPendingUpdate
       (paint_aggregator (DoDeferredUpdate (quiet_env (Canvas 1 800 600)) (OnWasHidden resized_widget))) \<and>
     needs_repainting_on_restore
       (DoDeferredUpdate (quiet_env (Canvas 1 800 600)) (OnWasHidden resized_widget)) \<and>
     sent (DoDeferredUpdate (quiet_env (Canvas 1 800 600)) (OnWasHidden resized_widget)) =
       sent (OnWasHidden resized_widget)"
    using flush_preconditions [of "OnWasHidden resized_widget" "quiet_env (Canvas 1 800 600)"] b
    by blast
  show ?thesis
    using 1 2 a b c by simp
qed

lemma flushed_widget_eq:
  "flushed_widget =
     (created_widget 7)
       \<lparr>widget_size := \<lparr>size_width = 800, size_height = 600\<rparr>,
        posted_tasks := [Task_CallDoDeferredUpdate],
        current_paint_buf := Some 1,
        update_reply_pending := True,
        sent := [\<lparr>msg_routing_id = 7,
                  msg_payload = ViewHostMsg_UpdateRect
                    \<lparr>bitmap = 1, bitmap_rect = Rect_wh 800 600, dx = 0, dy = 0,
                     params_scroll_rect = Rect_default, copy_rects = [Rect_wh 800 600],
                     view_size = \<lparr>size_width = 800, size_height = 600\<rparr>,
                     plugin_window_moves = [], flags = 1\<rparr>\<rparr>]\<rparr>"
  by (simp add: flushed_widget_def resized_widget_eq CallDoDeferredUpdate_def
        DoDeferredUpdate_def report_gpu_rendering_def quiet_env_def created_widget_def
        paint_and_send_def chosen_copy_rects_def UpdateRect_params_def UpdateInputMethod_def
        DidInitiatePaint_def Send_discard_eq assign_routing_id_def Let_def
        HasPendingUpdate_def Size_IsEmpty_def Rect_IsEmpty_def Rect_wh_def Rect_default_def
        ClearPendingUpdate_def GetPendingUpdate_def GetScrollDamage_def GetPaintBounds_def
        Union_rect_def rect_right_def rect_bottom_def PendingUpdate_empty_def PaintRect_def
        MSG_ROUTING_NONE_def)

text \<open>
  Claim C1 (single flight). A run of \<open>DoDeferredUpdate\<close> that sends a frame-update leaves
  \<open>update_reply_pending_\<close> set. From a state with an update in flight, whatever
  operations follow (invalidations, scrolls, resizes, input events, posted tasks that
  run), as long as none of them is \<open>OnUpdateRectAck\<close>, the update stays in flight, no
  further frame-update is sent and \<open>DoDeferredUpdate\<close> returns without any effect. Over
  any sequence of operations the frame-updates sent exceed the acknowledgements handled
  by at most one: the number sent, plus one when idle, never grows by more than the
  number of acknowledgements.
\<close>
theorem single_flight:
  "(frame_updates (sent (DoDeferredUpdate env w)) \<noteq> frame_updates (sent w) \<longrightarrow>
      update_reply_pending (DoDeferredUpdate env w)) \<and>
   (pending_ack_ok w \<and> update_reply_pending w \<and> list_all (\<lambda>x. \<not> is_ack x) ops \<longrightarrow>
      update_reply_pending (run ops w) \<and>
      frame_updates (sent (run ops w)) = frame_updates (sent w) \<and>
      DoDeferredUpdate env (run ops w) = run ops w) \<and>
   (pending_ack_ok w \<longrightarrow>
      length (frame_updates (sent (run ops w))) + idle (run ops w) \<le>
      length (frame_updates (sent w)) + idle w + length (filter is_ack ops))"
proof (intro conjI impI)
  assume "frame_updates (sent (DoDeferredUpdate env w)) \<noteq> frame_updates (sent w)"
  with DoDeferredUpdate_outcome [of env w] show "update_reply_pending (DoDeferredUpdate env w)"
    by auto
next
  assume a: "pending_ack_ok w \<and> update_reply_pending w \<and> list_all (\<lambda>x. \<not> is_ack x) ops"
  then have r: "update_reply_pending (run ops w) \<and>
      frame_updates (sent (run ops w)) = frame_updates (sent w)"
    by (simp add: in_flight_run)
  from r show "update_reply_pending (run ops w)" by simp
  from r show "frame_updates (sent (run ops w)) = frame_updates (sent w)" by simp
  from r show "DoDeferredUpdate env (run ops w) = run ops w"
    by (simp add: DoDeferredUpdate_noop)
next
  assume "pending_ack_ok w"
  then show "length (frame_updates (sent (run ops w))) + idle (run ops w) \<le>
      length (frame_updates (sent w)) + idle w + length (filter is_ack ops)"
    by (rule count_run)
qed

theorem single_flight_witness:
  "pending_ack_ok flushed_widget \<and> update_reply_pending flushed_widget \<and>
   list_all (\<lambda>x. \<not> is_ack x)
     [Engine_call (DidInvalidateRect (Rect_wh 10 10)),
      Engine_call (DidScrollRect 0 5 (Rect_wh 800 600)),
      Run_CallDoDeferredUpdate (quiet_env (Canvas 2 800 600))] \<and>
   length (frame_updates (sent flushed_widget)) = 1 \<and>
   frame_updates (sent (run
     [Engine_call (DidInvalidateRect (Rect_wh 10 10)),
      Engine_call (DidScrollRect 0 5 (Rect_wh 800 600)),
      Run_CallDoDeferredUpdate (quiet_env (Canvas 2 800 600))] flushed_widget)) =
   frame_updates (sent flushed_widget) \<and>
   update_reply_pending (run
     [Engine_call (DidInvalidateRect (Rect_wh 10 10)),
      Engine_call (DidScrollRect 0 5 (Rect_wh 800 600)),
      Run_CallDoDeferredUpdate (quiet_env (Canvas 2 800 600))] flushed_widget)"
proof -
  have a: "pending_ack_ok flushed_widget" "update_reply_pending flushed_widget"
    "length (frame_updates (sent flushed_widget)) = 1"
    by (simp_all add: flushed_widget_eq pending_ack_ok_def created_widget_def)
  have b: "list_all (\<lambda>x. \<not> is_ack x)
     [Engine_call (DidInvalidateRect (Rect_wh 10 10)),
      Engine_call (DidScrollRect 0 5 (Rect_wh 800 600)),
      Run_CallDoDeferredUpdate (quiet_env (Canvas 2 800 600))]"
    by simp
  show ?thesis
    using single_flight [of "quiet_env (Canvas 2 800 600)" flushed_widget
      "[Engine_call (DidInvalidateRect (Rect_wh 10 10)),
        Engine_call (DidScrollRect 0 5 (Rect_wh 800 600)),
        Run_CallDoDeferredUpdate (quiet_env (Canvas 2 800 600))]"] a b
    by blast
qed

text \<open>
  Claim C7 (close idempotence). \<open>OnClose\<close> on a closing widget changes nothing, so two
  calls in a row equal one. The first call removes the route (when the widget has a
  routing id), posts the teardown task as a non-nestable task and releases the
  reference, each once. Over any sequence of operations whatever, these three things
  happen exactly when the widget passes from not closing to closing, hence at most once,
  and a closing widget stays closing.
\<close>
theorem close_idempotent:
  "(closing w \<longrightarrow> OnClose w = w) \<and>
   OnClose (OnClose w) = OnClose w \<and>
   (\<not> closing w \<longrightarrow>
      closing (OnClose w) \<and>
      route_removals (OnClose w) =
        route_removals w @ (if routing_id_field w \<noteq> MSG_ROUTING_NONE
                            then [RemoveRoute (routing_id_field w)] else []) \<and>
      posted_non_nestable_tasks (OnClose w) = posted_non_nestable_tasks w @ [Task_Close] \<and>
      ref_count (OnClose w) = ref_count w - 1) \<and>
   (closing w \<longrightarrow>
      closing (run ops w) \<and> route_removals (run ops w) = route_removals w \<and>
      posted_non_nestable_tasks (run ops w) = posted_non_nestable_tasks w \<and>
      ref_count (run ops w) = ref_count w) \<and>
   (\<not> closing w \<and> closing (run ops w) \<longrightarrow>
      route_removals (run ops w) =
        route_removals w @ (if routing_id_field w \<noteq> MSG_ROUTING_NONE
                            then [RemoveRoute (routing_id_field w)] else []) \<and>
      posted_non_nestable_tasks (run ops w) = posted_non_nestable_tasks w @ [Task_Close] \<and>
      ref_count (run ops w) = ref_count w - 1)"
proof (intro conjI impI)
  show "OnClose (OnClose w) = OnClose w"
    by (cases "closing w") (simp_all add: OnClose_def Let_def SetHidden_def)
next
  assume "closing w"
  then show "OnClose w = w" by (rule OnClose_closing)
next
  assume n: "\<not> closing w"
  from close_state_OnClose [OF n]
  show "closing (OnClose w)"
    and "route_removals (OnClose w) =
        route_removals w @ (if routing_id_field w \<noteq> MSG_ROUTING_NONE
                            then [RemoveRoute (routing_id_field w)] else [])"
    and "posted_non_nestable_tasks (OnClose w) = posted_non_nestable_tasks w @ [Task_Close]"
    and "ref_count (OnClose w) = ref_count w - 1"
    by (simp_all add: close_state_def)
next
  assume c: "closing w"
  from close_state_closing_run [OF c, of ops]
  show "closing (run ops w)" and "route_removals (run ops w) = route_removals w"
    and "posted_non_nestable_tasks (run ops w) = posted_non_nestable_tasks w"
    and "ref_count (run ops w) = ref_count w"
    using c by (simp_all add: close_state_def)
next
  assume n: "\<not> closing w \<and> closing (run ops w)"
  from close_state_run [of ops w] n
  show "route_removals (run ops w) =
        route_removals w @ (if routing_id_field w \<noteq> MSG_ROUTING_NONE
                            then [RemoveRoute (routing_id_field w)] else [])"
    and "posted_non_nestable_tasks (run ops w) = posted_non_nestable_tasks w @ [Task_Close]"
    and "ref_count (run ops w) = ref_count w - 1"
    by (simp_all add: close_state_def)
qed

theorem close_idempotent_witness:
  "\<not> closing (created_widget 7) \<and> closing (OnClose (created_widget 7)) \<and>
   OnClose (OnClose (created_widget 7)) = OnClose (created_widget 7) \<and>
   route_removals (OnClose (created_widget 7)) = [RemoveRoute 7] \<and>
   posted_non_nestable_tasks (OnClose (created_widget 7)) = [Task_Close] \<and>
   ref_count (OnClose (created_widget 7)) = 0 \<and>
   closing (run [Msg_Close, Msg_WasHidden, Msg_Close] (created_widget 7)) \<and>
   route_removals (run [Msg_Close, Msg_WasHidden, Msg_Close] (created_widget 7)) = [RemoveRoute 7] \<and>
   posted_non_nestable_tasks (run [Msg_Close, Msg_WasHidden, Msg_Close] (created_widget 7)) =
     [Task_Close] \<and>
   ref_count (run [Msg_Close, Msg_WasHidden, Msg_Close] (created_widget 7)) = 0"
proof -
  have a: "\<not> closing (created_widget 7)" "routing_id_field (created_widget 7) \<noteq> MSG_ROUTING_NONE"
    "route_removals (created_widget 7) = []" "posted_non_nestable_tasks (created_widget 7) = []"
    "ref_count (created_widget 7) = 1" "routing_id_field (created_widget 7) = 7"
    by (simp_all add: created_widget_def MSG_ROUTING_NONE_def route_removals_def)
  have b: "closing (run [Msg_Close, Msg_WasHidden, Msg_Close] (created_widget 7))"
    using close_idempotent [of "created_widget 7" "[]"]
      close_idempotent [of "OnClose (created_widget 7)" "[Msg_WasHidden, Msg_Close]"] a(1)
    by simp
  show ?thesis
    using close_idempotent [of "created_widget 7" "[Msg_Close, Msg_WasHidden, Msg_Close]"] a b
    by auto
qed

text \<open>
  Claim C10 (nothing is sent after close). Once \<open>closing_\<close> is set, \<open>Send\<close> returns
  \<open>false\<close> for every message and forwards nothing; otherwise it forwards the message,
  after giving it the widget's routing id when it has none. \<open>OnClose\<close> sets
  \<open>closing_\<close> and sends nothing, and after it no sequence of operations (deferred
  updates, acknowledgements, input events, cursor changes, the deferred close, ...) adds
  anything to what was sent to the host.
\<close>
theorem no_send_after_close:
  "(closing w \<longrightarrow> Send m w = (False, w)) \<and>
   (\<not> closing w \<longrightarrow>
      Send m w =
        (True, w\<lparr>sent := sent w @ [if msg_routing_id m = MSG_ROUTING_NONE
                                     then m\<lparr>msg_routing_id := routing_id_field w\<rparr> else m]\<rparr>)) \<and>
   closing (OnClose w) \<and> sent (OnClose w) = sent w \<and>
   closing (run ops (OnClose w)) \<and> sent (run ops (OnClose w)) = sent w \<and>
   (closing w \<longrightarrow> closing (run ops w) \<and> sent (run ops w) = sent w)"
proof -
  have c: "closing (OnClose w)" and s: "sent (OnClose w) = sent w"
    by (simp_all add: OnClose_def Let_def SetHidden_def)
  show ?thesis
    using closing_run [OF c, of ops] closing_run [of w ops] c s
    by (auto simp add: Send_def assign_routing_id_def)
qed

theorem no_send_after_close_witness:
  "closing (OnClose flushed_widget) \<and>
   Send \<lparr>msg_routing_id = MSG_ROUTING_NONE, msg_payload = ViewHostMsg_Blur\<rparr> (OnClose flushed_widget) =
     (False, OnClose flushed_widget) \<and>
   \<not> closing flushed_widget \<and>
   sent (snd (Send \<lparr>msg_routing_id = MSG_ROUTING_NONE, msg_payload = ViewHostMsg_Blur\<rparr> flushed_widget)) =
     sent flushed_widget @ [\<lparr>msg_routing_id = 7, msg_payload = ViewHostMsg_Blur\<rparr>] \<and>
   sent (run [Msg_UpdateRect_ACK (quiet_env (Canvas 2 800 600)),
              Engine_call (DidChangeCursor 3), Run_DoDeferredClose,
              Msg_HandleInputEvent (Some \<lparr>event_type = MouseDown, event_is_keyboard_shortcut = False\<rparr>)
                \<lparr>engine_processed = True, input_calls = [DidBlur]\<rparr>]
          (OnClose flushed_widget)) = sent flushed_widget"
proof -
  have a: "\<not> closing flushed_widget" "routing_id_field flushed_widget = 7"
    by (simp_all add: flushed_widget_eq created_widget_def)
  have c: "closing (OnClose flushed_widget)"
    using no_send_after_close [of flushed_widget] by blast
  show ?thesis
    using no_send_after_close [of "OnClose flushed_widget"
        "\<lparr>msg_routing_id = MSG_ROUTING_NONE, msg_payload = ViewHostMsg_Blur\<rparr>" "[]"]
      no_send_after_close [of flushed_widget
        "\<lparr>msg_routing_id = MSG_ROUTING_NONE, msg_payload = ViewHostMsg_Blur\<rparr>"
        "[Msg_UpdateRect_ACK (quiet_env (Canvas 2 800 600)),
              Engine_call (DidChangeCursor 3), Run_DoDeferredClose,
              Msg_HandleInputEvent (Some \<lparr>event_type = MouseDown, event_is_keyboard_shortcut = False\<rparr>)
                \<lparr>engine_processed = True, input_calls = [DidBlur]\<rparr>]"]
      a c
    by simp
qed

lemma HasPendingUpdate_InvalidateRect:
  "\<not> Rect_IsEmpty d \<Longrightarrow> HasPendingUpdate (InvalidateRect d u)"
  by (simp add: HasPendingUpdate_def InvalidateRect_def)

lemma HasPendingUpdate_ScrollRect:
  "\<not> Rect_IsEmpty d \<Longrightarrow> HasPendingUpdate (ScrollRect ddx ddy d u)"
  by (simp add: HasPendingUpdate_def ScrollRect_def)

lemma didInvalidateRect_eq:
  "didInvalidateRect rect w =
     (let d = Intersect (Rect_of_Size (widget_size w)) rect
      in if Rect_IsEmpty d then w
         else if \<not> HasPendingUpdate (paint_aggregator w) \<and> \<not> update_reply_pending w
         then w\<lparr>paint_aggregator := InvalidateRect d (paint_aggregator w),
                posted_tasks := posted_tasks w @ [Task_CallDoDeferredUpdate]\<rparr>
         else w\<lparr>paint_aggregator := InvalidateRect d (paint_aggregator w)\<rparr>)"
  by (simp add: didInvalidateRect_def Let_def post_CallDoDeferredUpdate_def
        HasPendingUpdate_InvalidateRect)

lemma didScrollRect_eq:
  "didScrollRect ddx ddy rect w =
     (let d = Intersect (Rect_of_Size (widget_size w)) rect
      in if Rect_IsEmpty d then w
         else if \<not> HasPendingUpdate (paint_aggregator w) \<and> \<not> update_reply_pending w
         then w\<lparr>paint_aggregator := ScrollRect ddx ddy d (paint_aggregator w),
                posted_tasks := posted_tasks w @ [Task_CallDoDeferredUpdate]\<rparr>
         else w\<lparr>paint_aggregator := ScrollRect ddx ddy d (paint_aggregator w)\<rparr>)"
  by (simp add: didScrollRect_def Let_def post_CallDoDeferredUpdate_def
        HasPendingUpdate_ScrollRect)

lemma InvalidateRect_keeps_pending:
  "HasPendingUpdate u \<Longrightarrow> HasPendingUpdate (InvalidateRect d u)"
  by (auto simp add: HasPendingUpdate_def InvalidateRect_def)

lemma run_callback_keeps_pending:
  "HasPendingUpdate (paint_aggregator w) \<Longrightarrow>
   HasPendingUpdate (paint_aggregator (run_callback c w))"
  by (cases c)
     (simp_all add: didInvalidateRect_eq didScrollRect_eq Let_def InvalidateRect_keeps_pending
        HasPendingUpdate_ScrollRect didChangeCursor_def didBlur_def closeWidgetSoon_def
        Send_discard_eq)

lemma run_callbacks_keeps_pending:
  "HasPendingUpdate (paint_aggregator w) \<Longrightarrow>
   HasPendingUpdate (paint_aggregator (run_callbacks cs w))"
  by (induction cs arbitrary: w) (simp_all add: run_callback_keeps_pending)

lemma flush_tasks_run_callback:
  "flush_tasks (run_callback c w) =
     flush_tasks w @
     (if \<not> HasPendingUpdate (paint_aggregator w) \<and>
         HasPendingUpdate (paint_aggregator (run_callback c w)) \<and> \<not> update_reply_pending w
      then [Task_CallDoDeferredUpdate] else [])"
  by (cases c)
     (auto simp add: flush_tasks_def didInvalidateRect_eq didScrollRect_eq Let_def
        InvalidateRect_keeps_pending HasPendingUpdate_InvalidateRect HasPendingUpdate_ScrollRect
        didChangeCursor_def didBlur_def closeWidgetSoon_def Send_discard_eq)

lemma flush_tasks_run_callbacks:
  "flush_tasks (run_callbacks cs w) =
     flush_tasks w @
     (if \<not> HasPendingUpdate (paint_aggregator w) \<and>
         HasPendingUpdate (paint_aggregator (run_callbacks cs w)) \<and> \<not> update_reply_pending w
      then [Task_CallDoDeferredUpdate] else [])"
proof (induction cs arbitrary: w)
  case Nil
  show ?case by simp
next
  case (Cons c cs)
  let ?w1 = "run_callback c w"
  have u: "update_reply_pending ?w1 = update_reply_pending w"
    using run_callbacks_fields(5) [of "[c]" w] by simp
  have k: "HasPendingUpdate (paint_aggregator ?w1) \<Longrightarrow>
      HasPendingUpdate (paint_aggregator (run_callbacks cs ?w1))"
    by (rule run_callbacks_keeps_pending)
  have m: "HasPendingUpdate (paint_aggregator w) \<Longrightarrow> HasPendingUpdate (paint_aggregator ?w1)"
    by (rule run_callback_keeps_pending)
  show ?case
    using Cons.IH [of ?w1] flush_tasks_run_callback [of c w] u k m by auto
qed

text \<open>
  Claim C8 (invalidation clipping and deferred scheduling). \<open>didInvalidateRect\<close> and
  \<open>didScrollRect\<close> intersect the rectangle with the view bounds. When the intersection
  is empty the widget is left as it was. Otherwise the clipped rectangle goes to the
  aggregator, and one \<open>CallDoDeferredUpdate\<close> task is posted exactly when no update was
  pending before the call and none is in flight. Neither call sends anything or touches
  the in-flight flag. Any series of delegate calls made by the engine in one turn posts
  at most one such task: one when the aggregator goes from nothing pending to something
  pending with no update in flight, none otherwise.
\<close>
theorem invalidation_clipping_and_scheduling:
  "(Rect_IsEmpty (Intersect (Rect_of_Size (widget_size w)) rect) \<longrightarrow>
      didInvalidateRect rect w = w \<and> didScrollRect ddx ddy rect w = w) \<and>
   (\<not> Rect_IsEmpty (Intersect (Rect_of_Size (widget_size w)) rect) \<longrightarrow>
      paint_aggregator (didInvalidateRect rect w) =
        InvalidateRect (Intersect (Rect_of_Size (widget_size w)) rect) (paint_aggregator w) \<and>
      paint_aggregator (didScrollRect ddx ddy rect w) =
        ScrollRect ddx ddy (Intersect (Rect_of_Size (widget_size w)) rect) (paint_aggregator w) \<and>
      posted_tasks (didInvalidateRect rect w) =
        posted_tasks w @
        (if \<not> HasPendingUpdate (paint_aggregator w) \<and> \<not> update_reply_pending w
         then [Task_CallDoDeferredUpdate] else []) \<and>
      posted_tasks (didScrollRect ddx ddy rect w) =
        posted_tasks w @
        (if \<not> HasPendingUpdate (paint_aggregator w) \<and> \<not> update_reply_pending w
         then [Task_CallDoDeferredUpdate] else [])) \<and>
   sent (didInvalidateRect rect w) = sent w \<and>
   sent (didScrollRect ddx ddy rect w) = sent w \<and>
   update_reply_pending (didInvalidateRect rect w) = update_reply_pending w \<and>
   update_reply_pending (didScrollRect ddx ddy rect w) = update_reply_pending w \<and>
   flush_tasks (run_callbacks cs w) =
     flush_tasks w @
     (if \<not> HasPendingUpdate (paint_aggregator w) \<and>
         HasPendingUpdate (paint_aggregator (run_callbacks cs w)) \<and> \<not> update_reply_pending w
      then [Task_CallDoDeferredUpdate] else [])"
  by (simp add: flush_tasks_run_callbacks) (simp add: didInvalidateRect_eq didScrollRect_eq Let_def)

theorem invalidation_clipping_and_scheduling_witness:
  "Rect_IsEmpty (Intersect (Rect_of_Size (widget_size flushed_widget))
     \<lparr>rect_x = 900, rect_y = 0, rect_width = 10, rect_height = 10\<rparr>) \<and>
   didInvalidateRect \<lparr>rect_x = 900, rect_y = 0, rect_width = 10, rect_height = 10\<rparr> flushed_widget =
     flushed_widget \<and>
   \<not> Rect_IsEmpty (Intersect (Rect_of_Size (widget_size (created_widget 7\<lparr>widget_size :=
       \<lparr>size_width = 800, size_height = 600\<rparr>\<rparr>)))
     \<lparr>rect_x = 790, rect_y = 0, rect_width = 20, rect_height = 10\<rparr>) \<and>
   paint_rects (paint_aggregator (didInvalidateRect
       \<lparr>rect_x = 790, rect_y = 0, rect_width = 20, rect_height = 10\<rparr>
       (created_widget 7\<lparr>widget_size := \<lparr>size_width = 800, size_height = 600\<rparr>\<rparr>))) =
     [\<lparr>rect_x = 790, rect_y = 0, rect_width = 10, rect_height = 10\<rparr>] \<and>
   posted_tasks (didInvalidateRect
       \<lparr>rect_x = 790, rect_y = 0, rect_width = 20, rect_height = 10\<rparr>
       (created_widget 7\<lparr>widget_size := \<lparr>size_width = 800, size_height = 600\<rparr>\<rparr>)) =
     [Task_CallDoDeferredUpdate] \<and>
   flush_tasks (run_callbacks
       [DidInvalidateRect \<lparr>rect_x = 790, rect_y = 0, rect_width = 20, rect_height = 10\<rparr>,
        DidScrollRect 0 5 (Rect_wh 800 600),
        DidInvalidateRect (Rect_wh 5 5)]
       (created_widget 7\<lparr>widget_size := \<lparr>size_width = 800, size_height = 600\<rparr>\<rparr>)) =
     [Task_CallDoDeferredUpdate]"
proof -
  let ?w = "created_widget 7\<lparr>widget_size := \<lparr>size_width = 800, size_height = 600\<rparr>\<rparr>"
  let ?r = "\<lparr>rect_x = 790, rect_y = 0, rect_width = 20, rect_height = 10\<rparr>"
  let ?cs = "[DidInvalidateRect ?r, DidScrollRect 0 5 (Rect_wh 800 600), DidInvalidateRect (Rect_wh 5 5)]"
  have a: "Rect_IsEmpty (Intersect (Rect_of_Size (widget_size flushed_widget))
     \<lparr>rect_x = 900, rect_y = 0, rect_width = 10, rect_height = 10\<rparr>)"
    by (simp add: flushed_widget_eq Rect_of_Size_def Rect_wh_def Intersect_def rect_right_def
          rect_bottom_def Rect_IsEmpty_def Rect_default_def)
  have b: "Intersect (Rect_of_Size (widget_size ?w)) ?r =
      \<lparr>rect_x = 790, rect_y = 0, rect_width = 10, rect_height = 10\<rparr>"
    by (simp add: Rect_of_Size_def Rect_wh_def Intersect_def rect_right_def rect_bottom_def)
  have c: "\<not> HasPendingUpdate (paint_aggregator ?w)" "\<not> update_reply_pending ?w"
    "posted_tasks ?w = []" "paint_aggregator ?w = PendingUpdate_empty" "flush_tasks ?w = []"
    by (simp_all add: created_widget_def HasPendingUpdate_def PendingUpdate_empty_def
          Rect_IsEmpty_def Rect_default_def flush_tasks_def)
  have d: "HasPendingUpdate (paint_aggregator (run_callbacks ?cs ?w))"
    by (simp add: didInvalidateRect_eq didScrollRect_eq Let_def b c Rect_IsEmpty_def
          HasPendingUpdate_def InvalidateRect_def ScrollRect_def PendingUpdate_empty_def
          Rect_of_Size_def Rect_wh_def Intersect_def rect_right_def rect_bottom_def)
  have 1: "didInvalidateRect \<lparr>rect_x = 900, rect_y = 0, rect_width = 10, rect_height = 10\<rparr>
      flushed_widget = flushed_widget"
    using invalidation_clipping_and_scheduling [of flushed_widget
        "\<lparr>rect_x = 900, rect_y = 0, rect_width = 10, rect_height = 10\<rparr>" 0 0 "[]"] a
    by blast
  have 2: "paint_aggregator (didInvalidateRect ?r ?w) =
        InvalidateRect (Intersect (Rect_of_Size (widget_size ?w)) ?r) (paint_aggregator ?w) \<and>
      posted_tasks (didInvalidateRect ?r ?w) = posted_tasks ?w @ [Task_CallDoDeferredUpdate] \<and>
      flush_tasks (run_callbacks ?cs ?w) = flush_tasks ?w @ [Task_CallDoDeferredUpdate]"
    using invalidation_clipping_and_scheduling [of ?w ?r 0 0 ?cs] b c(1,2) d
    by (simp add: Rect_IsEmpty_def)
  show ?thesis
    using a 1 2 b c
    by (simp add: InvalidateRect_def PendingUpdate_empty_def Rect_IsEmpty_def)
qed






text \<open>
  Claim C4, as stated, fails: when no canvas is obtained the pending update does not
  remain queued. \<open>DoDeferredUpdate\<close> has already taken its snapshot and cleared the
  aggregator, and returns without putting anything back. Here the resized widget has its
  whole view pending; after the failed flush nothing is pending.
\<close>
theorem acquisition_failure_counterexample:
  "flush_ready resized_widget \<and>
   canvas_result (quiet_env (NoCanvas None)) = NoCanvas None \<and>
   paint_rects (paint_aggregator resized_widget) = [Rect_wh 800 600] \<and>
   paint_rects (paint_aggregator (DoDeferredUpdate (quiet_env (NoCanvas None)) resized_widget)) = [] \<and>
   \<not> HasPendingUpdate
       (paint_aggregator (DoDeferredUpdate (quiet_env (NoCanvas None)) resized_widget))"
proof -
  have r: "flush_ready resized_widget"
    by (simp add: resized_widget_eq created_widget_def flush_ready_def HasPendingUpdate_def
          Size_IsEmpty_def)
  have c: "canvas_result (quiet_env (NoCanvas None)) = NoCanvas None"
    by (simp add: quiet_env_def)
  show ?thesis
    using r c DoDeferredUpdate_NoCanvas [OF r c]
    by (simp add: resized_widget_eq PendingUpdate_empty_def HasPendingUpdate_def
          Rect_IsEmpty_def Rect_default_def)
qed

text \<open>
  Claim C4, amended. In every state in which \<open>DoDeferredUpdate\<close> goes on to acquire a
  canvas, when the acquisition fails the function returns early: no frame-update is
  sent, the widget stays out of the in-flight state and the paint flags are kept. The
  pending update, however, is gone: the aggregator is empty, nothing records that a
  repaint is owed, and running \<open>DoDeferredUpdate\<close> again does nothing. Only a new
  invalidation gives the widget something to flush.
\<close>
theorem acquisition_failure:
  "flush_ready w \<and> canvas_result env = NoCanvas b \<longrightarrow>
     frame_updates (sent (DoDeferredUpdate env w)) = frame_updates (sent w) \<and>
     \<not> update_reply_pending (DoDeferredUpdate env w) \<and>
     next_paint_flags (DoDeferredUpdate env w) = next_paint_flags w \<and>
     paint_aggregator (DoDeferredUpdate env w) = PendingUpdate_empty \<and>
     \<not> HasPendingUpdate (paint_aggregator (DoDeferredUpdate env w)) \<and>
     needs_repainting_on_restore (DoDeferredUpdate env w) = needs_repainting_on_restore w \<and>
     DoDeferredUpdate env' (DoDeferredUpdate env w) = DoDeferredUpdate env w"
proof
  assume a: "flush_ready w \<and> canvas_result env = NoCanvas b"
  then have r: "flush_ready w" and c: "canvas_result env = NoCanvas b" by simp_all
  have e: "\<not> HasPendingUpdate PendingUpdate_empty"
    by (simp add: HasPendingUpdate_def PendingUpdate_empty_def Rect_IsEmpty_def Rect_default_def)
  have D: "DoDeferredUpdate env w =
     (run_callbacks (layout_calls env) (report_gpu_rendering env w))
       \<lparr>paint_aggregator := PendingUpdate_empty, current_paint_buf := b\<rparr>"
    using r c by (rule DoDeferredUpdate_NoCanvas)
  have p: "paint_aggregator (DoDeferredUpdate env w) = PendingUpdate_empty"
    by (simp add: D)
  have f: "frame_updates (sent (DoDeferredUpdate env w)) = frame_updates (sent w)"
    using report_gpu_rendering_sent [of env w] by (auto simp add: D)
  have u: "\<not> update_reply_pending (DoDeferredUpdate env w)"
    using r by (simp add: D run_callbacks_fields report_gpu_rendering_fields flush_ready_def)
  have n: "next_paint_flags (DoDeferredUpdate env w) = next_paint_flags w"
    by (simp add: D run_callbacks_fields report_gpu_rendering_fields)
  have q: "needs_repainting_on_restore (DoDeferredUpdate env w) = needs_repainting_on_restore w"
    by (simp add: D run_callbacks_fields report_gpu_rendering_def Send_discard_eq)
  have again: "DoDeferredUpdate env' (DoDeferredUpdate env w) = DoDeferredUpdate env w"
    by (rule DoDeferredUpdate_noop) (simp add: p e)
  show "frame_updates (sent (DoDeferredUpdate env w)) = frame_updates (sent w) \<and>
     \<not> update_reply_pending (DoDeferredUpdate env w) \<and>
     next_paint_flags (DoDeferredUpdate env w) = next_paint_flags w \<and>
     paint_aggregator (DoDeferredUpdate env w) = PendingUpdate_empty \<and>
     \<not> HasPendingUpdate (paint_aggregator (DoDeferredUpdate env w)) \<and>
     needs_repainting_on_restore (DoDeferredUpdate env w) = needs_repainting_on_restore w \<and>
     DoDeferredUpdate env' (DoDeferredUpdate env w) = DoDeferredUpdate env w"
    using f u n p q again e by simp
qed

theorem acquisition_failure_witness:
  "flush_ready resized_widget \<and>
   canvas_result (quiet_env (NoCanvas None)) = NoCanvas None \<and>
   frame_updates (sent (DoDeferredUpdate (quiet_env (NoCanvas None)) resized_widget)) = [] \<and>
   \<not> update_reply_pending (DoDeferredUpdate (quiet_env (NoCanvas None)) resized_widget) \<and>
   next_paint_flags (DoDeferredUpdate (quiet_env (NoCanvas None)) resized_widget) = 1 \<and>
   paint_aggregator (DoDeferredUpdate (quiet_env (NoCanvas None)) resized_widget) =
     PendingUpdate_empty \<and>
   DoDeferredUpdate (quiet_env (Canvas 1 800 600))
     (DoDeferredUpdate (quiet_env (NoCanvas None)) resized_widget) =
     DoDeferredUpdate (quiet_env (NoCanvas None)) resized_widget"
proof -
  have r: "flush_ready resized_widget"
    by (simp add: resized_widget_eq created_widget_def flush_ready_def HasPendingUpdate_def
          Size_IsEmpty_def)
  have c: "canvas_result (quiet_env (NoCanvas None)) = NoCanvas None"
    by (simp add: quiet_env_def)
  have s: "sent resized_widget = []" "next_paint_flags resized_widget = 1"
    by (simp_all add: resized_widget_eq created_widget_def)
  show ?thesis
    using acquisition_failure [of resized_widget "quiet_env (NoCanvas None)" None
        "quiet_env (Canvas 1 800 600)"] r c s
    by simp
qed

lemma deliver_input_event_fst:
  "fst (deliver_input_event ev env w) =
     ((event_type ev \<noteq> Char \<or> \<not> suppress_next_char_events w) \<and> webwidget w \<and>
      engine_processed env)"
  by (simp add: deliver_input_event_def Let_def)

lemma deliver_input_event_fields:
  "routing_id_field (snd (deliver_input_event ev env w)) = routing_id_field w"
  "closing (snd (deliver_input_event ev env w)) = closing w"
  "pending_input_event_ack (snd (deliver_input_event ev env w)) = pending_input_event_ack w"
  "input_acks (sent (snd (deliver_input_event ev env w))) = input_acks (sent w)"
  by (simp_all add: deliver_input_event_def Let_def run_callbacks_fields)

lemma deliver_input_event_keeps_pending:
  "HasPendingUpdate (paint_aggregator w) \<Longrightarrow>
   HasPendingUpdate (paint_aggregator (snd (deliver_input_event ev env w)))"
proof -
  assume h: "HasPendingUpdate (paint_aggregator w)"
  then have "HasPendingUpdate (paint_aggregator
      (run_callbacks (input_calls env) (w\<lparr>suppress_next_char_events := False\<rparr>)))"
    by (intro run_callbacks_keeps_pending) simp
  with h show ?thesis
    by (simp add: deliver_input_event_def Let_def)
qed

lemma acknowledge_input_event_aggregator [simp]:
  "paint_aggregator (acknowledge_input_event ty p w) = paint_aggregator w"
  by (simp add: acknowledge_input_event_def Let_def Send_discard_eq split: option.split)

lemma OnHandleInputEvent_Some:
  "OnHandleInputEvent (Some ev) env w =
     (acknowledge_input_event (event_type ev)
        (fst (deliver_input_event ev env (w\<lparr>handling_input_event := True\<rparr>)))
        (snd (deliver_input_event ev env (w\<lparr>handling_input_event := True\<rparr>))))
     \<lparr>handling_input_event := False\<rparr>"
  by (simp add: OnHandleInputEvent_def Let_def DidHandleKeyEvent_def split_beta)

text \<open>
  Claim C5 (input-ack coalescing). \<open>OnHandleInputEvent\<close> builds the acknowledgement after
  the engine handled the event. For a \<open>MouseMove\<close> or \<open>MouseWheel\<close> event with an
  update pending in the aggregator at that point (as is the case whenever one was
  pending when the event arrived), the acknowledgement is not sent but put in
  \<open>pending_input_event_ack_\<close>, and an acknowledgement already held there is sent first.
  For any other event type, or with nothing pending, the acknowledgement is sent at once
  and the slot is left alone. \<open>CallDoDeferredUpdate\<close> always leaves the slot empty and
  sends the acknowledgement it held.
\<close>
theorem input_ack_coalescing:
  "(let w' = OnHandleInputEvent (Some ev) env w;
        ty = event_type ev;
        processed = ((ty \<noteq> Char \<or> \<not> suppress_next_char_events w) \<and> webwidget w \<and>
                     engine_processed env);
        response = \<lparr>msg_routing_id = routing_id_field w,
                    msg_payload = ViewHostMsg_HandleInputEvent_ACK ty processed\<rparr>;
        held = (case pending_input_event_ack w of
                  Some old \<Rightarrow> [assign_routing_id (routing_id_field w) old] | None \<Rightarrow> [])
    in (HasPendingUpdate (paint_aggregator w) \<longrightarrow> HasPendingUpdate (paint_aggregator w')) \<and>
       (pending_ack_ok w \<and> \<not> closing w \<and> (ty = MouseMove \<or> ty = MouseWheel) \<and>
        HasPendingUpdate (paint_aggregator w') \<longrightarrow>
          pending_input_event_ack w' = Some response \<and>
          input_acks (sent w') = input_acks (sent w) @ held) \<and>
       (\<not> closing w \<and>
        \<not> ((ty = MouseMove \<or> ty = MouseWheel) \<and> HasPendingUpdate (paint_aggregator w')) \<longrightarrow>
          pending_input_event_ack w' = pending_input_event_ack w \<and>
          input_acks (sent w') = input_acks (sent w) @ [response])) \<and>
   pending_input_event_ack (CallDoDeferredUpdate fenv w) = None \<and>
   (pending_ack_ok w \<and> \<not> closing w \<longrightarrow>
      input_acks (sent (CallDoDeferredUpdate fenv w)) =
        input_acks (sent w) @
        (case pending_input_event_ack w of
           Some old \<Rightarrow> [assign_routing_id (routing_id_field w) old] | None \<Rightarrow> []))"
proof -
  let ?w0 = "w\<lparr>handling_input_event := True\<rparr>"
  let ?d = "deliver_input_event ev env ?w0"
  let ?w' = "OnHandleInputEvent (Some ev) env w"
  have agg: "paint_aggregator ?w' = paint_aggregator (snd ?d)"
    by (simp add: OnHandleInputEvent_Some)
  have keep: "HasPendingUpdate (paint_aggregator w) \<longrightarrow> HasPendingUpdate (paint_aggregator ?w')"
    using deliver_input_event_keeps_pending [of ?w0 ev env] by (simp add: agg)
  have call: "pending_ack_ok w \<and> \<not> closing w \<longrightarrow>
      input_acks (sent (CallDoDeferredUpdate fenv w)) =
        input_acks (sent w) @
        (case pending_input_event_ack w of
           Some old \<Rightarrow> [assign_routing_id (routing_id_field w) old] | None \<Rightarrow> [])"
    by (auto simp add: CallDoDeferredUpdate_sent pending_ack_ok_def split: option.split)
  show ?thesis
    using keep call
    by (auto simp add: Let_def CallDoDeferredUpdate_fields agg OnHandleInputEvent_Some
          acknowledge_input_event_def Send_discard_eq deliver_input_event_fields
          deliver_input_event_fst pending_ack_ok_def split: option.split)
qed

lemma moved_widget_eq:
  "moved_widget =
     resized_widget
       \<lparr>pending_input_event_ack :=
          Some \<lparr>msg_routing_id = 7,
                msg_payload = ViewHostMsg_HandleInputEvent_ACK MouseMove True\<rparr>\<rparr>"
  by (simp add: moved_widget_def input_of_def handled_def OnHandleInputEvent_Some
        resized_widget_eq created_widget_def deliver_input_event_def
        acknowledge_input_event_def Let_def HasPendingUpdate_def)

theorem input_ack_coalescing_witness:
  "pending_ack_ok resized_widget \<and> \<not> closing resized_widget \<and>
   HasPendingUpdate (paint_aggregator resized_widget) \<and>
   pending_input_event_ack moved_widget =
     Some \<lparr>msg_routing_id = 7, msg_payload = ViewHostMsg_HandleInputEvent_ACK MouseMove True\<rparr> \<and>
   input_acks (sent moved_widget) = [] \<and>
   pending_ack_ok moved_widget \<and> \<not> closing moved_widget \<and>
   HasPendingUpdate (paint_aggregator moved_widget) \<and>
   pending_input_event_ack (OnHandleInputEvent (input_of MouseWheel) handled moved_widget) =
     Some \<lparr>msg_routing_id = 7, msg_payload = ViewHostMsg_HandleInputEvent_ACK MouseWheel True\<rparr> \<and>
   input_acks (sent (OnHandleInputEvent (input_of MouseWheel) handled moved_widget)) =
     [\<lparr>msg_routing_id = 7, msg_payload = ViewHostMsg_HandleInputEvent_ACK MouseMove True\<rparr>] \<and>
   pending_input_event_ack (OnHandleInputEvent (input_of KeyDown) handled moved_widget) =
     pending_input_event_ack moved_widget \<and>
   input_acks (sent (OnHandleInputEvent (input_of KeyDown) handled moved_widget)) =
     [\<lparr>msg_routing_id = 7, msg_payload = ViewHostMsg_HandleInputEvent_ACK KeyDown True\<rparr>] \<and>
   pending_input_event_ack (CallDoDeferredUpdate (quiet_env (Canvas 1 800 600)) moved_widget) = None \<and>
   input_acks (sent (CallDoDeferredUpdate (quiet_env (Canvas 1 800 600)) moved_widget)) =
     [\<lparr>msg_routing_id = 7, msg_payload = ViewHostMsg_HandleInputEvent_ACK MouseMove True\<rparr>]"
proof -
  let ?fenv = "quiet_env (Canvas 1 800 600)"
  have r: "pending_ack_ok resized_widget" "\<not> closing resized_widget"
    "HasPendingUpdate (paint_aggregator resized_widget)"
    "routing_id_field resized_widget = 7" "webwidget resized_widget"
    "\<not> suppress_next_char_events resized_widget" "pending_input_event_ack resized_widget = None"
    "input_acks (sent resized_widget) = []"
    by (simp_all add: resized_widget_eq created_widget_def pending_ack_ok_def HasPendingUpdate_def)
  have m: "pending_ack_ok moved_widget" "\<not> closing moved_widget"
    "HasPendingUpdate (paint_aggregator moved_widget)"
    "routing_id_field moved_widget = 7" "webwidget moved_widget"
    "\<not> suppress_next_char_events moved_widget"
    "pending_input_event_ack moved_widget =
       Some \<lparr>msg_routing_id = 7, msg_payload = ViewHostMsg_HandleInputEvent_ACK MouseMove True\<rparr>"
    "input_acks (sent moved_widget) = []"
    by (simp_all add: moved_widget_eq r pending_ack_ok_def)
  have e: "engine_processed handled"
    by (simp add: handled_def)
  have 1: "pending_input_event_ack moved_widget =
      Some \<lparr>msg_routing_id = 7, msg_payload = ViewHostMsg_HandleInputEvent_ACK MouseMove True\<rparr> \<and>
      input_acks (sent moved_widget) = []"
    using input_ack_coalescing [of "\<lparr>event_type = MouseMove, event_is_keyboard_shortcut = False\<rparr>"
        handled resized_widget ?fenv] r e m(3)
    by (simp add: Let_def moved_widget_def input_of_def)
  have k: "HasPendingUpdate (paint_aggregator
      (OnHandleInputEvent (input_of MouseWheel) handled moved_widget))"
    using input_ack_coalescing [of "\<lparr>event_type = MouseWheel, event_is_keyboard_shortcut = False\<rparr>"
        handled moved_widget ?fenv] m(3)
    by (simp add: Let_def input_of_def)
  have 2: "pending_input_event_ack (OnHandleInputEvent (input_of MouseWheel) handled moved_widget) =
      Some \<lparr>msg_routing_id = 7, msg_payload = ViewHostMsg_HandleInputEvent_ACK MouseWheel True\<rparr> \<and>
      input_acks (sent (OnHandleInputEvent (input_of MouseWheel) handled moved_widget)) =
      [\<lparr>msg_routing_id = 7, msg_payload = ViewHostMsg_HandleInputEvent_ACK MouseMove True\<rparr>]"
    using input_ack_coalescing [of "\<lparr>event_type = MouseWheel, event_is_keyboard_shortcut = False\<rparr>"
        handled moved_widget ?fenv] m e k
    by (simp add: Let_def input_of_def)
  have 3: "pending_input_event_ack (OnHandleInputEvent (input_of KeyDown) handled moved_widget) =
      pending_input_event_ack moved_widget \<and>
      input_acks (sent (OnHandleInputEvent (input_of KeyDown) handled moved_widget)) =
      [\<lparr>msg_routing_id = 7, msg_payload = ViewHostMsg_HandleInputEvent_ACK KeyDown True\<rparr>]"
    using input_ack_coalescing [of "\<lparr>event_type = KeyDown, event_is_keyboard_shortcut = False\<rparr>"
        handled moved_widget ?fenv] m e
    by (simp add: Let_def input_of_def)
  have 4: "pending_input_event_ack (CallDoDeferredUpdate ?fenv moved_widget) = None \<and>
      input_acks (sent (CallDoDeferredUpdate ?fenv moved_widget)) =
      [\<lparr>msg_routing_id = 7, msg_payload = ViewHostMsg_HandleInputEvent_ACK MouseMove True\<rparr>]"
    using input_ack_coalescing [of "\<lparr>event_type = KeyDown, event_is_keyboard_shortcut = False\<rparr>"
        handled moved_widget ?fenv] m
    by (simp add: Let_def)
  show ?thesis
    using r(1-3) m(1-3) 1 2 3 4 by simp
qed

lemma scrolled_widget_eq:
  "scrolled_widget =
     flushed_widget
       \<lparr>update_reply_pending := False, current_paint_buf := None, released_dibs := [1],
        posted_tasks := [Task_CallDoDeferredUpdate, Task_CallDoDeferredUpdate],
        paint_aggregator :=
          \<lparr>scroll_delta = (0, 5),
           scroll_rect = \<lparr>rect_x = 0, rect_y = 200, rect_width = 800, rect_height = 400\<rparr>,
           paint_rects = [\<lparr>rect_x = 0, rect_y = 0, rect_width = 10, rect_height = 10\<rparr>,
                          \<lparr>rect_x = 100, rect_y = 100, rect_width = 10, rect_height = 10\<rparr>]\<rparr>\<rparr>"
  by (simp add: scrolled_widget_def OnUpdateRectAck_def CallDoDeferredUpdate_def
        DoDeferredUpdate_def DidFlushPaint_def
        flushed_widget_eq created_widget_def didInvalidateRect_eq
        didScrollRect_eq Let_def Rect_of_Size_def Rect_wh_def Intersect_def rect_right_def
        rect_bottom_def Rect_IsEmpty_def InvalidateRect_def ScrollRect_def
        PendingUpdate_empty_def HasPendingUpdate_def Rect_default_def)

text \<open>The \<open>copy_rects\<close> of the frame-update a flush sends.\<close>
lemma flush_copy_rects:
  assumes "flush_ready w" and "\<not> closing w" and "canvas_result env = Canvas buf dw dh"
  shows "sent_copy_rects (DoDeferredUpdate env w) =
           sent_copy_rects w @
           [if accelerated_compositing env then []
            else chosen_copy_rects (paint_aggregator (run_callbacks (layout_calls env) w))
                   (GetScrollDamage (paint_aggregator (run_callbacks (layout_calls env) w)))
                   ((update_bounds (paint_aggregator (run_callbacks (layout_calls env) w)))
                      \<lparr>rect_width := dw, rect_height := dh\<rparr>)]"
  using DoDeferredUpdate_flush(1) [OF assms(1,3)] assms(2)
  by (simp add: sent_copy_rects_def)

text \<open>
  Claim C9, as stated, fails: with a scroll and separate paint rectangles pending, the
  tracked paint rectangles are not replaced by their bounding union. The frame-update
  sent carries both paint rectangles as they were tracked, followed by the scroll damage:
  three rectangles, not the union and the scroll damage.
\<close>
theorem degrade_to_single_rect_counterexample:
  "flush_ready scrolled_widget \<and> \<not> closing scrolled_widget \<and>
   \<not> Rect_IsEmpty (scroll_rect (paint_aggregator scrolled_widget)) \<and>
   paint_rects (paint_aggregator scrolled_widget) =
     [\<lparr>rect_x = 0, rect_y = 0, rect_width = 10, rect_height = 10\<rparr>,
      \<lparr>rect_x = 100, rect_y = 100, rect_width = 10, rect_height = 10\<rparr>] \<and>
   update_bounds (paint_aggregator scrolled_widget) = Rect_wh 800 600 \<and>
   sent_copy_rects (DoDeferredUpdate (quiet_env (Canvas 2 800 600)) scrolled_widget) =
     [[Rect_wh 800 600],
      [\<lparr>rect_x = 0, rect_y = 0, rect_width = 10, rect_height = 10\<rparr>,
       \<lparr>rect_x = 100, rect_y = 100, rect_width = 10, rect_height = 10\<rparr>,
       \<lparr>rect_x = 0, rect_y = 200, rect_width = 800, rect_height = 400\<rparr>]] \<and>
   sent_copy_rects (DoDeferredUpdate (quiet_env (Canvas 2 800 600)) scrolled_widget) \<noteq>
     [[Rect_wh 800 600],
      [Rect_wh 800 600, \<lparr>rect_x = 0, rect_y = 200, rect_width = 800, rect_height = 400\<rparr>]]"
proof -
  have a: "flush_ready scrolled_widget" "\<not> closing scrolled_widget"
    "canvas_result (quiet_env (Canvas 2 800 600)) = Canvas 2 800 600"
    "\<not> accelerated_compositing (quiet_env (Canvas 2 800 600))"
    "layout_calls (quiet_env (Canvas 2 800 600)) = []"
    by (simp_all add: scrolled_widget_eq flushed_widget_eq created_widget_def flush_ready_def
          HasPendingUpdate_def Size_IsEmpty_def quiet_env_def)
  have b: "scroll_rect (paint_aggregator scrolled_widget) =
      \<lparr>rect_x = 0, rect_y = 200, rect_width = 800, rect_height = 400\<rparr>"
    "paint_rects (paint_aggregator scrolled_widget) =
     [\<lparr>rect_x = 0, rect_y = 0, rect_width = 10, rect_height = 10\<rparr>,
      \<lparr>rect_x = 100, rect_y = 100, rect_width = 10, rect_height = 10\<rparr>]"
    "sent_copy_rects scrolled_widget = [[Rect_wh 800 600]]"
    by (simp_all add: scrolled_widget_eq flushed_widget_eq sent_copy_rects_def)
  have c: "update_bounds (paint_aggregator scrolled_widget) = Rect_wh 800 600"
    "GetScrollDamage (paint_aggregator scrolled_widget) =
      \<lparr>rect_x = 0, rect_y = 200, rect_width = 800, rect_height = 400\<rparr>"
    by (simp_all add: b update_bounds_def GetPaintBounds_def GetScrollDamage_def
        Union_rect_def Rect_IsEmpty_def Rect_default_def rect_right_def rect_bottom_def
        Rect_wh_def)
  show ?thesis
    using flush_copy_rects [OF a(1,2,3)] a
    by (simp add: b c chosen_copy_rects_def Rect_IsEmpty_def Rect_wh_def)
qed

text \<open>
  Claim C9, amended. When \<open>DoDeferredUpdate\<close> flushes, the rectangles it paints and sends
  as \<open>copy_rects\<close> are: with no scroll in the pending update (its \<open>scroll_rect\<close> is
  empty), the single bounds rectangle in place of the tracked paint rectangles; with a
  scroll, the tracked paint rectangles as they are; in both cases followed by the scroll
  damage when that is not empty. With no scroll the scroll damage is empty and the
  \<open>copy_rects\<close> are exactly the bounds rectangle. When GPU rendering is active the
  \<open>copy_rects\<close> sent are empty. The bounds are the union of the paint bounds and the
  scroll damage, with the width and height of the canvas obtained.
\<close>
theorem degrade_to_single_rect:
  "flush_ready w \<and> \<not> closing w \<and> canvas_result env = Canvas buf dw dh \<longrightarrow>
     (let u = paint_aggregator (run_callbacks (layout_calls env) w);
          bounds = (update_bounds u)\<lparr>rect_width := dw, rect_height := dh\<rparr>
      in sent_copy_rects (DoDeferredUpdate env w) =
           sent_copy_rects w @
           [if accelerated_compositing env then []
            else (if Rect_IsEmpty (scroll_rect u) then [bounds] else paint_rects u) @
                 (if Rect_IsEmpty (GetScrollDamage u) then [] else [GetScrollDamage u])] \<and>
         (Rect_IsEmpty (scroll_rect u) \<and> \<not> accelerated_compositing env \<longrightarrow>
            sent_copy_rects (DoDeferredUpdate env w) = sent_copy_rects w @ [[bounds]]))"
proof
  assume a: "flush_ready w \<and> \<not> closing w \<and> canvas_result env = Canvas buf dw dh"
  then have 1: "flush_ready w" and 2: "\<not> closing w" and 3: "canvas_result env = Canvas buf dw dh"
    by simp_all
  show "let u = paint_aggregator (run_callbacks (layout_calls env) w);
          bounds = (update_bounds u)\<lparr>rect_width := dw, rect_height := dh\<rparr>
      in sent_copy_rects (DoDeferredUpdate env w) =
           sent_copy_rects w @
           [if accelerated_compositing env then []
            else (if Rect_IsEmpty (scroll_rect u) then [bounds] else paint_rects u) @
                 (if Rect_IsEmpty (GetScrollDamage u) then [] else [GetScrollDamage u])] \<and>
         (Rect_IsEmpty (scroll_rect u) \<and> \<not> accelerated_compositing env \<longrightarrow>
            sent_copy_rects (DoDeferredUpdate env w) = sent_copy_rects w @ [[bounds]])"
    using flush_copy_rects [OF 1 2 3]
    by (simp add: Let_def chosen_copy_rects_def GetScrollDamage_def Rect_IsEmpty_def
          Rect_default_def)
qed

theorem degrade_to_single_rect_witness:
  "flush_ready resized_widget \<and> \<not> closing resized_widget \<and>
   canvas_result (quiet_env (Canvas 1 800 600)) = Canvas 1 800 600 \<and>
   Rect_IsEmpty (scroll_rect (paint_aggregator resized_widget)) \<and>
   \<not> accelerated_compositing (quiet_env (Canvas 1 800 600)) \<and>
   sent_copy_rects (DoDeferredUpdate (quiet_env (Canvas 1 800 600)) resized_widget) =
     [[Rect_wh 800 600]]"
proof -
  have a: "flush_ready resized_widget" "\<not> closing resized_widget"
    "canvas_result (quiet_env (Canvas 1 800 600)) = Canvas 1 800 600"
    "\<not> accelerated_compositing (quiet_env (Canvas 1 800 600))"
    "layout_calls (quiet_env (Canvas 1 800 600)) = []"
    "Rect_IsEmpty (scroll_rect (paint_aggregator resized_widget))"
    "sent_copy_rects resized_widget = []"
    by (simp_all add: resized_widget_eq created_widget_def flush_ready_def
          HasPendingUpdate_def Size_IsEmpty_def quiet_env_def Rect_IsEmpty_def Rect_default_def
          sent_copy_rects_def)
  have b: "update_bounds (paint_aggregator resized_widget) = Rect_wh 800 600"
    by (simp add: resized_widget_eq update_bounds_def GetPaintBounds_def GetScrollDamage_def
        Union_rect_def Rect_IsEmpty_def Rect_default_def rect_right_def rect_bottom_def
        Rect_wh_def)
  show ?thesis
    using degrade_to_single_rect [of resized_widget "quiet_env (Canvas 1 800 600)" 1 800 600] a
    by (simp add: Let_def b Rect_wh_def GetScrollDamage_def Rect_IsEmpty_def Rect_default_def)
qed

lemma sent_step_extends: "\<exists>ms. sent (step x w) = sent w @ ms"
proof (cases "is_flush_op x")
  case False
  with quiet_step [OF False, of w] show ?thesis
    by (auto simp add: quiet_def)
next
  case True
  have c: "\<exists>ms. sent (CallDoDeferredUpdate env v) = sent v @ ms" for env v
    using DoDeferredUpdate_sent [of env v] by (auto simp add: CallDoDeferredUpdate_sent)
  from True consider env where "x = Run_CallDoDeferredUpdate env" | env where "x = Msg_UpdateRect_ACK env"
    by (cases x) simp_all
  then show ?thesis
  proof cases
    case 1
    then show ?thesis using c [of env w] by simp
  next
    case 2
    then show ?thesis
      using c [of env "w\<lparr>update_reply_pending := False, current_paint_buf := None,
          released_dibs := released_dibs w @
            (case current_paint_buf w of Some buf \<Rightarrow> [buf] | None \<Rightarrow> [])\<rparr>"]
      by (simp add: OnUpdateRectAck_eq)
  qed
qed

lemma sent_run_extends: "\<exists>ms. sent (run ops w) = sent w @ ms"
proof (induction ops arbitrary: w)
  case Nil
  show ?case by simp
next
  case (Cons x xs)
  obtain ms1 where 1: "sent (step x w) = sent w @ ms1"
    using sent_step_extends by blast
  obtain ms2 where 2: "sent (run xs (step x w)) = sent (step x w) @ ms2"
    using Cons.IH by blast
  show ?case
    using 1 2 by simp
qed

text \<open>While the resize-ack bit is set it stays set until a frame-update carries it, unless
  the widget is closing.\<close>
lemma resize_ack_step:
  assumes "pending_ack_ok w" and "is_resize_ack (next_paint_flags w) \<or> closing w"
  shows "(frame_updates (sent (step x w)) = frame_updates (sent w) \<and>
          (is_resize_ack (next_paint_flags (step x w)) \<or> closing (step x w))) \<or>
         (\<exists>m. frame_updates (sent (step x w)) = frame_updates (sent w) @ [m] \<and>
              carries_resize_ack m)"
proof (cases "is_flush_op x")
  case False
  with quiet_step [OF False, of w] assms show ?thesis
    by (auto simp add: quiet_def)
next
  case True
  have c: "(frame_updates (sent (CallDoDeferredUpdate env v)) = frame_updates (sent v) \<and>
          (is_resize_ack (next_paint_flags (CallDoDeferredUpdate env v)) \<or>
           closing (CallDoDeferredUpdate env v))) \<or>
         (\<exists>m. frame_updates (sent (CallDoDeferredUpdate env v)) = frame_updates (sent v) @ [m] \<and>
              carries_resize_ack m)"
    if "pending_ack_ok v" and "is_resize_ack (next_paint_flags v) \<or> closing v" for env v
    using CallDoDeferredUpdate_outcome [OF that(1), of env] that(2)
    by (auto simp add: CallDoDeferredUpdate_fields carries_resize_ack_def)
  from True consider env where "x = Run_CallDoDeferredUpdate env" | env where "x = Msg_UpdateRect_ACK env"
    by (cases x) simp_all
  then show ?thesis
  proof cases
    case 1
    then show ?thesis using c [OF assms, of env] by simp
  next
    case 2
    let ?w0 = "w\<lparr>update_reply_pending := False, current_paint_buf := None,
          released_dibs := released_dibs w @
            (case current_paint_buf w of Some buf \<Rightarrow> [buf] | None \<Rightarrow> [])\<rparr>"
    have "pending_ack_ok ?w0" "is_resize_ack (next_paint_flags ?w0) \<or> closing ?w0"
      using assms by (simp_all add: pending_ack_ok_def)
    from c [OF this, of env] 2 show ?thesis
      by (simp add: OnUpdateRectAck_eq)
  qed
qed

lemma resize_ack_run:
  "pending_ack_ok w \<Longrightarrow> is_resize_ack (next_paint_flags w) \<or> closing w \<Longrightarrow>
   (case updates_since w (run ops w) of [] \<Rightarrow> True | m # _ \<Rightarrow> carries_resize_ack m)"
proof (induction ops arbitrary: w)
  case Nil
  show ?case by (simp add: updates_since_def)
next
  case (Cons x xs)
  let ?w1 = "step x w"
  have ok1: "pending_ack_ok ?w1"
    using Cons.prems(1) by (rule pending_ack_ok_step)
  from resize_ack_step [OF Cons.prems, of x]
  consider (same) "frame_updates (sent ?w1) = frame_updates (sent w)"
      "is_resize_ack (next_paint_flags ?w1) \<or> closing ?w1"
    | (sent) m where "frame_updates (sent ?w1) = frame_updates (sent w) @ [m]"
      "carries_resize_ack m"
    by blast
  then show ?case
  proof cases
    case same
    have "updates_since w (run xs ?w1) = updates_since ?w1 (run xs ?w1)"
      by (simp add: updates_since_def same(1))
    with Cons.IH [OF ok1 same(2)] show ?thesis by simp
  next
    case sent
    obtain ms where "sent (run xs ?w1) = sent ?w1 @ ms"
      using sent_run_extends by blast
    then have "frame_updates (sent (run xs ?w1)) = frame_updates (sent w) @ m # frame_updates ms"
      using sent(1) by simp
    then have "updates_since w (run (x # xs) w) = m # frame_updates ms"
      by (simp add: updates_since_def)
    with sent(2) show ?thesis by simp
  qed
qed

lemma Intersect_view:
  "Intersect (Rect_of_Size s) (Rect_wh (size_width s) (size_height s)) =
     (if Size_IsEmpty s then Rect_default else Rect_of_Size s)"
  by (auto simp add: Intersect_def Rect_of_Size_def Rect_wh_def rect_right_def rect_bottom_def
        Size_IsEmpty_def)

lemma is_resize_ack_set [simp]: "is_resize_ack (f OR IS_RESIZE_ACK)"
  by (simp add: is_resize_ack_def IS_RESIZE_ACK_def bit.conj_disj_distrib2 or_eq_0_iff)

lemma OnResize_full_view:
  assumes "webwidget w"
  shows "OnResize s r (full_view_invalidation s) w =
     (let w5 = (SetHidden False (w\<lparr>resizer_rect := r\<rparr>))
                 \<lparr>needs_repainting_on_restore := False, widget_size := s,
                  paint_aggregator := PendingUpdate_empty\<rparr>
      in if Size_IsEmpty s then w5
         else set_next_paint_is_resize_ack
                (if update_reply_pending w
                 then w5\<lparr>paint_aggregator := PendingUpdate_empty\<lparr>paint_rects := [Rect_of_Size s]\<rparr>\<rparr>
                 else w5\<lparr>paint_aggregator := PendingUpdate_empty\<lparr>paint_rects := [Rect_of_Size s]\<rparr>,
                         posted_tasks := posted_tasks w @ [Task_CallDoDeferredUpdate]\<rparr>))"
proof -
  have e: "\<not> HasPendingUpdate PendingUpdate_empty" "Rect_IsEmpty Rect_default"
    "paint_rects PendingUpdate_empty = []"
    by (simp_all add: HasPendingUpdate_def PendingUpdate_empty_def Rect_IsEmpty_def Rect_default_def)
  have n: "\<not> Size_IsEmpty s \<Longrightarrow> \<not> Rect_IsEmpty (Rect_of_Size s)"
    by (simp add: Size_IsEmpty_def Rect_IsEmpty_def Rect_of_Size_def Rect_wh_def)
  show ?thesis
    using assms e n
    by (simp add: OnResize_def full_view_invalidation_def Let_def didInvalidateRect_eq
          Intersect_view ClearPendingUpdate_def SetHidden_def InvalidateRect_def)
qed


text \<open>
  Claim C6 (resize contract). \<open>OnResize\<close> on a widget that is not shutting down, the
  engine's resize invalidating the whole new view: the size and the resizer rectangle
  are recorded, the widget is not hidden, and whatever was pending is gone from the
  aggregator, which holds the whole new view and nothing else when the new size is not
  empty, and nothing at all when it is. The \<open>IS_RESIZE_ACK\<close> bit is added to
  \<open>next_paint_flags_\<close> exactly when the new size is not empty; nothing is sent by the
  resize itself. After a resize to a non-empty size, over any sequence of operations,
  the first frame-update sent carries the resize-ack flag.
\<close>
theorem resize_contract:
  "webwidget w \<longrightarrow>
     (let w' = OnResize new_size new_resizer_rect (full_view_invalidation new_size) w
      in widget_size w' = new_size \<and> resizer_rect w' = new_resizer_rect \<and> \<not> is_hidden w' \<and>
         paint_aggregator w' =
           (if Size_IsEmpty new_size then PendingUpdate_empty
            else PendingUpdate_empty\<lparr>paint_rects := [Rect_of_Size new_size]\<rparr>) \<and>
         next_paint_flags w' =
           (if Size_IsEmpty new_size then next_paint_flags w
            else next_paint_flags w OR IS_RESIZE_ACK) \<and>
         (\<not> Size_IsEmpty new_size \<longrightarrow> next_paint_is_resize_ack w') \<and>
         (\<not> next_paint_is_resize_ack w \<longrightarrow>
            next_paint_is_resize_ack w' = (\<not> Size_IsEmpty new_size)) \<and>
         sent w' = sent w \<and>
         (pending_ack_ok w \<and> \<not> Size_IsEmpty new_size \<longrightarrow>
            (case updates_since w' (run ops w') of
               [] \<Rightarrow> True | m # _ \<Rightarrow> carries_resize_ack m)))"
proof
  assume ww: "webwidget w"
  let ?w' = "OnResize new_size new_resizer_rect (full_view_invalidation new_size) w"
  note eq = OnResize_full_view [OF ww, of new_size new_resizer_rect]
  have f: "next_paint_flags ?w' =
           (if Size_IsEmpty new_size then next_paint_flags w
            else next_paint_flags w OR IS_RESIZE_ACK)"
    by (simp add: eq Let_def SetHidden_def set_next_paint_is_resize_ack_def)
  have ok: "pending_ack_ok w \<Longrightarrow> pending_ack_ok ?w'"
    using pending_ack_ok_step [of w "Msg_Resize new_size new_resizer_rect (full_view_invalidation new_size)"]
    by simp
  have tr: "pending_ack_ok w \<and> \<not> Size_IsEmpty new_size \<longrightarrow>
            (case updates_since ?w' (run ops ?w') of
               [] \<Rightarrow> True | m # _ \<Rightarrow> carries_resize_ack m)"
  proof
    assume a: "pending_ack_ok w \<and> \<not> Size_IsEmpty new_size"
    then have "is_resize_ack (next_paint_flags ?w') \<or> closing ?w'"
      by (simp add: f)
    with ok a show "case updates_since ?w' (run ops ?w') of
               [] \<Rightarrow> True | m # _ \<Rightarrow> carries_resize_ack m"
      by (intro resize_ack_run) simp_all
  qed
  have rest: "widget_size ?w' = new_size \<and> resizer_rect ?w' = new_resizer_rect \<and> \<not> is_hidden ?w' \<and>
         paint_aggregator ?w' =
           (if Size_IsEmpty new_size then PendingUpdate_empty
            else PendingUpdate_empty\<lparr>paint_rects := [Rect_of_Size new_size]\<rparr>) \<and>
         sent ?w' = sent w"
    by (simp add: eq Let_def SetHidden_def set_next_paint_is_resize_ack_def)
  show "let w' = ?w'
      in widget_size w' = new_size \<and> resizer_rect w' = new_resizer_rect \<and> \<not> is_hidden w' \<and>
         paint_aggregator w' =
           (if Size_IsEmpty new_size then PendingUpdate_empty
            else PendingUpdate_empty\<lparr>paint_rects := [Rect_of_Size new_size]\<rparr>) \<and>
         next_paint_flags w' =
           (if Size_IsEmpty new_size then next_paint_flags w
            else next_paint_flags w OR IS_RESIZE_ACK) \<and>
         (\<not> Size_IsEmpty new_size \<longrightarrow> next_paint_is_resize_ack w') \<and>
         (\<not> next_paint_is_resize_ack w \<longrightarrow>
            next_paint_is_resize_ack w' = (\<not> Size_IsEmpty new_size)) \<and>
         sent w' = sent w \<and>
         (pending_ack_ok w \<and> \<not> Size_IsEmpty new_size \<longrightarrow>
            (case updates_since w' (run ops w') of
               [] \<Rightarrow> True | m # _ \<Rightarrow> carries_resize_ack m))"
    unfolding Let_def using rest tr f
    by (simp add: next_paint_is_resize_ack_def)
qed

theorem resize_contract_witness:
  "webwidget (created_widget 7) \<and> pending_ack_ok (created_widget 7) \<and>
   \<not> Size_IsEmpty \<lparr>size_width = 800, size_height = 600\<rparr> \<and>
   \<not> next_paint_is_resize_ack (created_widget 7) \<and>
   paint_aggregator resized_widget = PendingUpdate_empty\<lparr>paint_rects := [Rect_wh 800 600]\<rparr> \<and>
   next_paint_is_resize_ack resized_widget \<and>
   sent resized_widget = [] \<and>
   map carries_resize_ack
     (updates_since resized_widget
        (run [Engine_call (DidInvalidateRect (Rect_wh 10 10)),
              Run_CallDoDeferredUpdate (quiet_env (Canvas 1 800 600))] resized_widget)) = [True] \<and>
   (case updates_since resized_widget
        (run [Engine_call (DidInvalidateRect (Rect_wh 10 10)),
              Run_CallDoDeferredUpdate (quiet_env (Canvas 1 800 600))] resized_widget) of
      [] \<Rightarrow> True | m # _ \<Rightarrow> carries_resize_ack m) \<and>
   \<not> next_paint_is_resize_ack
       (OnResize \<lparr>size_width = 0, size_height = 600\<rparr> Rect_default
          (full_view_invalidation \<lparr>size_width = 0, size_height = 600\<rparr>) (created_widget 7))"
proof -
  let ?ops = "[Engine_call (DidInvalidateRect (Rect_wh 10 10)),
              Run_CallDoDeferredUpdate (quiet_env (Canvas 1 800 600))]"
  have a: "webwidget (created_widget 7)" "pending_ack_ok (created_widget 7)"
    "\<not> Size_IsEmpty \<lparr>size_width = 800, size_height = 600\<rparr>"
    "\<not> next_paint_is_resize_ack (created_widget 7)" "sent (created_widget 7) = []"
    "Size_IsEmpty \<lparr>size_width = 0, size_height = 600\<rparr>"
    by (simp_all add: created_widget_def pending_ack_ok_def Size_IsEmpty_def
          next_paint_is_resize_ack_def is_resize_ack_def)
  have r: "run ?ops resized_widget =
      flushed_widget\<lparr>posted_tasks := [Task_CallDoDeferredUpdate],
        sent := [\<lparr>msg_routing_id = 7,
                  msg_payload = ViewHostMsg_UpdateRect
                    \<lparr>bitmap = 1, bitmap_rect = Rect_wh 800 600, dx = 0, dy = 0,
                     params_scroll_rect = Rect_default,
                     copy_rects = [Rect_wh 800 600],
                     view_size = \<lparr>size_width = 800, size_height = 600\<rparr>,
                     plugin_window_moves = [], flags = 1\<rparr>\<rparr>]\<rparr>"
    by (simp add: flushed_widget_eq resized_widget_eq CallDoDeferredUpdate_def
        DoDeferredUpdate_def report_gpu_rendering_def quiet_env_def created_widget_def
        paint_and_send_def chosen_copy_rects_def UpdateRect_params_def UpdateInputMethod_def
        DidInitiatePaint_def Send_discard_eq assign_routing_id_def Let_def
        HasPendingUpdate_def Size_IsEmpty_def Rect_IsEmpty_def Rect_wh_def Rect_default_def
        ClearPendingUpdate_def GetPendingUpdate_def GetScrollDamage_def GetPaintBounds_def
        Union_rect_def rect_right_def rect_bottom_def PendingUpdate_empty_def PaintRect_def
        MSG_ROUTING_NONE_def didInvalidateRect_eq Rect_of_Size_def Intersect_def
        InvalidateRect_def)
  have u: "map carries_resize_ack (updates_since resized_widget (run ?ops resized_widget)) = [True]"
    by (subst r)
       (simp add: updates_since_def flushed_widget_eq resized_widget_eq created_widget_def
          carries_resize_ack_def is_resize_ack_def IS_RESIZE_ACK_def)
  from resize_contract [of "created_widget 7" "\<lparr>size_width = 800, size_height = 600\<rparr>"
      Rect_default ?ops] a(1,2,3,4)
  have 1: "paint_aggregator resized_widget =
      PendingUpdate_empty\<lparr>paint_rects := [Rect_of_Size \<lparr>size_width = 800, size_height = 600\<rparr>]\<rparr> \<and>
      next_paint_is_resize_ack resized_widget \<and> sent resized_widget = sent (created_widget 7) \<and>
      (case updates_since resized_widget (run ?ops resized_widget) of
        [] \<Rightarrow> True | m # _ \<Rightarrow> carries_resize_ack m)"
    by (simp add: Let_def resized_widget_def)
  from resize_contract [of "created_widget 7" "\<lparr>size_width = 0, size_height = 600\<rparr>"
      Rect_default "[]"] a(1,4,6)
  have 2: "\<not> next_paint_is_resize_ack
       (OnResize \<lparr>size_width = 0, size_height = 600\<rparr> Rect_default
          (full_view_invalidation \<lparr>size_width = 0, size_height = 600\<rparr>) (created_widget 7))"
    by (simp add: Let_def)
  show ?thesis
    using a 1 2 u by (simp add: Rect_of_Size_def)
qed

end
